theory Spec2Isabelle
  imports Main "HOL-Library.AList"
begin

section \<open>Python strings\<close>

text \<open>
  A Python \<open>str\<close> is modelled as a \<open>string\<close>. The model is exact on ASCII text;
  a character outside ASCII is an opaque element that is neither whitespace nor a letter
  with a lower-case form. A dictionary is an association list read with \<open>map_of\<close>.
\<close>

abbreviation TAB :: string where
  "TAB \<equiv> [CHR 0x09]"

abbreviation LF :: char where
  "LF \<equiv> CHR 0x0A"

abbreviation CR :: char where
  "CR \<equiv> CHR 0x0D"

definition isspace :: "char \<Rightarrow> bool" where
  "isspace c \<longleftrightarrow> c \<in> set [CHR 0x09, CHR 0x0A, CHR 0x0B, CHR 0x0C, CHR 0x0D,
                         CHR 0x1C, CHR 0x1D, CHR 0x1E, CHR 0x1F, CHR 0x20]"

definition lstrip :: "string \<Rightarrow> string" where
  "lstrip s = dropWhile isspace s"

definition rstrip :: "string \<Rightarrow> string" where
  "rstrip s = rev (dropWhile isspace (rev s))"

definition strip :: "string \<Rightarrow> string" where
  "strip s = lstrip (rstrip s)"

definition lower_char :: "char \<Rightarrow> char" where
  "lower_char c =
     (case map_of (zip ''ABCDEFGHIJKLMNOPQRSTUVWXYZ'' ''abcdefghijklmnopqrstuvwxyz'') c of
        Some d \<Rightarrow> d
      | None \<Rightarrow> c)"

definition lower :: "string \<Rightarrow> string" where
  "lower s = map lower_char s"

text \<open>\<open>startswith s p\<close> is \<open>s.startswith(p)\<close>, \<open>contains sub s\<close> is \<open>sub in s\<close>.\<close>

fun startswith :: "string \<Rightarrow> string \<Rightarrow> bool" where
  "startswith s [] = True"
| "startswith [] (p # ps) = False"
| "startswith (c # cs) (p # ps) = (c = p \<and> startswith cs ps)"

definition endswith :: "string \<Rightarrow> string \<Rightarrow> bool" where
  "endswith s p = startswith (rev s) (rev p)"

fun contains :: "string \<Rightarrow> string \<Rightarrow> bool" where
  "contains sub [] = (sub = [])"
| "contains sub (c # cs) = (startswith (c # cs) sub \<or> contains sub cs)"

text \<open>
  \<open>str_replace old new s\<close> is \<open>s.replace(old, new)\<close>: the occurrences of \<open>old\<close> are
  found from the left and do not overlap; the text put in is not looked at again.
\<close>

fun str_replace :: "string \<Rightarrow> string \<Rightarrow> string \<Rightarrow> string" where
  "str_replace old new [] = (if old = [] then new else [])"
| "str_replace old new (c # cs) =
     (if old = [] then new @ c # str_replace old new cs
      else if startswith (c # cs) old then new @ str_replace old new (drop (length old - 1) cs)
      else c # str_replace old new cs)"

text \<open>\<open>split_sep sep s\<close> is \<open>s.split(sep)\<close> for a non-empty separator.\<close>

fun split_sep :: "string \<Rightarrow> string \<Rightarrow> string list" where
  "split_sep sep [] = [ [] ]"
| "split_sep sep (c # cs) =
     (if startswith (c # cs) sep \<and> sep \<noteq> [] then [] # split_sep sep (drop (length sep - 1) cs)
      else (case split_sep sep cs of w # ws \<Rightarrow> (c # w) # ws | [] \<Rightarrow> [ [c] ]))"

text \<open>\<open>split_ws s\<close> is \<open>s.split()\<close>: the maximal runs of non-whitespace characters.\<close>

fun split_ws_from :: "string \<Rightarrow> string \<Rightarrow> string list" where
  "split_ws_from w [] = (if w = [] then [] else [rev w])"
| "split_ws_from w (c # cs) =
     (if isspace c then (if w = [] then split_ws_from [] cs else rev w # split_ws_from [] cs)
      else split_ws_from (c # w) cs)"

definition split_ws :: "string \<Rightarrow> string list" where
  "split_ws s = split_ws_from [] s"

text \<open>\<open>join sep xs\<close> is \<open>sep.join(xs)\<close>.\<close>

fun join :: "string \<Rightarrow> string list \<Rightarrow> string" where
  "join sep [] = []"
| "join sep [x] = x"
| "join sep (x # y # ys) = x @ sep @ join sep (y # ys)"

text \<open>
  A text file opened in text mode: \<open>universal_newlines\<close> is the translation of line ends
  done on reading, \<open>readlines\<close> cuts the text after every line feed.
\<close>

fun universal_newlines :: "string \<Rightarrow> string" where
  "universal_newlines [] = []"
| "universal_newlines [c] = (if c = CR then [LF] else [c])"
| "universal_newlines (c # d # cs) =
     (if c = CR \<and> d = LF then LF # universal_newlines cs
      else if c = CR then LF # universal_newlines (d # cs)
      else c # universal_newlines (d # cs))"

fun readlines :: "string \<Rightarrow> string list" where
  "readlines [] = []"
| "readlines (c # cs) =
     (if c = LF then [c] # readlines cs
      else (case readlines cs of [] \<Rightarrow> [ [c] ] | l # ls \<Rightarrow> (c # l) # ls))"

text \<open>Truthiness of a value that is \<open>None\<close> or a string.\<close>

fun truthy :: "string option \<Rightarrow> bool" where
  "truthy None = False"
| "truthy (Some s) = (s \<noteq> [])"

section \<open>Errors\<close>

datatype error =
    ValueError string
  | NameError string
  | IndexError string
  | MissingSectionHeaderError
  | DuplicateSectionError string
  | DuplicateOptionError string string
  | ParsingError

section \<open>The configuration parser\<close>

text \<open>
  \<open>configparser.ConfigParser(interpolation=None)\<close> of the Python library, as
  \<open>parse_service_file\<close> uses it: delimiters \<open>=\<close> and \<open>:\<close>, full-line comments starting
  with \<open>#\<close> or \<open>;\<close>, no inline comments, strict mode, empty lines kept inside values,
  option names lower-cased, the section \<open>DEFAULT\<close> read as fallback of every section.
\<close>

type_synonym optdict = "(string \<times> string) list"

record config =
  defaults :: optdict
  sections :: "(string \<times> optdict) list"

datatype element = Sect string | Opt string string

record reader =
  r_defaults :: "(string \<times> string list) list"
  r_sections :: "(string \<times> (string \<times> string list) list) list"
  elements_added :: "element list"
  sectname :: "string option"
  optname :: "string option"
  indent_level :: nat
  e :: bool

definition new_reader :: reader where
  "new_reader = \<lparr>r_defaults = [], r_sections = [], elements_added = [], sectname = None,
                  optname = None, indent_level = 0, e = False\<rparr>"

text \<open>The regular expression \<open>\[(?P<header>.+)\]\<close>, matched at the start of the value.\<close>

definition sect_header :: "string \<Rightarrow> string option" where
  "sect_header v =
     (case v of
        [] \<Rightarrow> None
      | c # rest \<Rightarrow>
          if c = CHR ''['' \<and> CHR '']'' \<in> set rest
          then (let header = rev (tl (dropWhile (\<lambda>x. x \<noteq> CHR '']'') (rev rest)))
                in if header = [] then None else Some header)
          else None)"

text \<open>
  The regular expression \<open>(?P<option>.*?)\s*(?P<vi>=|:)\s*(?P<value>.*)$\<close>: the option
  name ends before the first delimiter and the white space in front of it.
\<close>

definition is_delim :: "char \<Rightarrow> bool" where
  "is_delim c \<longleftrightarrow> c = CHR ''='' \<or> c = CHR '':''"

definition opt_match :: "string \<Rightarrow> (string \<times> string) option" where
  "opt_match v =
     (if \<exists>c \<in> set v. is_delim c
      then Some (rstrip (takeWhile (\<lambda>c. \<not> is_delim c) v),
                 lstrip (tl (dropWhile (\<lambda>c. \<not> is_delim c) v)))
      else None)"

text \<open>The dictionary \<open>cursect\<close> is the one of \<open>DEFAULT\<close> or the one of the section \<open>sectname\<close>.\<close>

definition cursect :: "reader \<Rightarrow> (string \<times> string list) list option" where
  "cursect st =
     (case sectname st of
        None \<Rightarrow> None
      | Some s \<Rightarrow> (case map_of (r_sections st) s of
                    Some d \<Rightarrow> Some d
                  | None \<Rightarrow> Some (r_defaults st)))"

definition cursect_update :: "(string list option \<Rightarrow> string list) \<Rightarrow> string \<Rightarrow> reader \<Rightarrow> reader" where
  "cursect_update f k st =
     (case sectname st of
        None \<Rightarrow> st
      | Some s \<Rightarrow> (case map_of (r_sections st) s of
                    Some d \<Rightarrow> st\<lparr>r_sections := AList.update s (AList.update k (f (map_of d k)) d) (r_sections st)\<rparr>
                  | None \<Rightarrow> st\<lparr>r_defaults := AList.update k (f (map_of (r_defaults st) k)) (r_defaults st)\<rparr>))"

definition append_value :: "string \<Rightarrow> string list option \<Rightarrow> string list" where
  "append_value v old = (case old of None \<Rightarrow> [v] | Some vs \<Rightarrow> vs @ [v])"

definition read_line :: "reader \<Rightarrow> string \<Rightarrow> error + reader" where
  "read_line st line =
     (let comment = (startswith (strip line) ''#'' \<or> startswith (strip line) '';'');
          val = (if comment then [] else strip line)
      in if val = [] then
           (if \<not> comment \<and> cursect st \<noteq> None \<and> truthy (optname st)
            then Inr (cursect_update (append_value []) (case optname st of Some k \<Rightarrow> k | None \<Rightarrow> []) st)
            else Inr st)
         else
           (let cur_indent_level = length (takeWhile isspace line)
            in if cursect st \<noteq> None \<and> truthy (optname st) \<and> cur_indent_level > indent_level st
               then Inr (cursect_update (append_value val) (case optname st of Some k \<Rightarrow> k | None \<Rightarrow> []) st)
               else
                 (let st = st\<lparr>indent_level := cur_indent_level\<rparr>
                  in case sect_header val of
                       Some name \<Rightarrow>
                         if name \<in> fst ` set (r_sections st) then
                           (if Sect name \<in> set (elements_added st)
                            then Inl (DuplicateSectionError name)
                            else Inr (st\<lparr>sectname := Some name, optname := None,
                                         elements_added := Sect name # elements_added st\<rparr>))
                         else if name = ''DEFAULT'' then
                           Inr (st\<lparr>sectname := Some name, optname := None\<rparr>)
                         else
                           Inr (st\<lparr>r_sections := r_sections st @ [(name, [])],
                                   sectname := Some name, optname := None,
                                   elements_added := Sect name # elements_added st\<rparr>)
                     | None \<Rightarrow>
                         if cursect st = None then Inl MissingSectionHeaderError
                         else
                           (case opt_match val of
                              Some (optname0, optval) \<Rightarrow>
                                (let st = (if optname0 = [] then st\<lparr>e := True\<rparr> else st);
                                     name = lower (rstrip optname0);
                                     sect = (case sectname st of Some s \<Rightarrow> s | None \<Rightarrow> [])
                                 in if Opt sect name \<in> set (elements_added st)
                                    then Inl (DuplicateOptionError sect name)
                                    else Inr (cursect_update (\<lambda>_. [strip optval]) name
                                               (st\<lparr>optname := Some name,
                                                   elements_added := Opt sect name # elements_added st\<rparr>)))
                            | None \<Rightarrow> Inr (st\<lparr>e := True\<rparr>)))))"

fun read_lines :: "reader \<Rightarrow> string list \<Rightarrow> error + reader" where
  "read_lines st [] = Inr st"
| "read_lines st (line # lines) =
     (case read_line st line of
        Inl err \<Rightarrow> Inl err
      | Inr st' \<Rightarrow> read_lines st' lines)"

definition join_multiline_values :: "(string \<times> string list) list \<Rightarrow> optdict" where
  "join_multiline_values options = map (\<lambda>(name, val). (name, rstrip (join [LF] val))) options"

definition read_file :: "string \<Rightarrow> error + config" where
  "read_file content =
     (case read_lines new_reader (readlines (universal_newlines content)) of
        Inl err \<Rightarrow> Inl err
      | Inr st \<Rightarrow>
          if e st then Inl ParsingError
          else Inr \<lparr>defaults = join_multiline_values (r_defaults st),
                    sections = map (\<lambda>(name, options). (name, join_multiline_values options))
                                   (r_sections st)\<rparr>)"

definition has_section :: "config \<Rightarrow> string \<Rightarrow> bool" where
  "has_section cfg s \<longleftrightarrow> s \<in> fst ` set (sections cfg)"

text \<open>\<open>config.get(section, option, fallback=fallback)\<close>.\<close>

definition config_get :: "config \<Rightarrow> string \<Rightarrow> string \<Rightarrow> string option \<Rightarrow> string option" where
  "config_get cfg s option fallback =
     (case map_of (sections cfg) s of
        None \<Rightarrow>
          if s \<noteq> ''DEFAULT'' then fallback
          else (case map_of (defaults cfg) (lower option) of
                  Some v \<Rightarrow> Some v
                | None \<Rightarrow> fallback)
      | Some sectiondict \<Rightarrow>
          (case map_of sectiondict (lower option) of
             Some v \<Rightarrow> Some v
           | None \<Rightarrow> (case map_of (defaults cfg) (lower option) of
                        Some v \<Rightarrow> Some v
                      | None \<Rightarrow> fallback)))"

section \<open>The converter: loading a unit file\<close>

text \<open>
  The fields of \<open>SystemdServiceConverter\<close>. The field \<open>config\<close> is \<open>None\<close> in the source
  until \<open>parse_service_file\<close> has read a file; the generators run only after that, so the
  field holds a configuration here, the empty one at first.
\<close>

record converter =
  config :: config
  service_name :: string
  output_file :: string
  template_service :: bool
  instance_name :: string
  prefix_name :: string

definition init :: converter where
  "init = \<lparr>config = \<lparr>defaults = [], sections = []\<rparr>, service_name = [], output_file = [],
            template_service = False, instance_name = [], prefix_name = []\<rparr>"

subsection \<open>\<open>preprocess_service_file\<close>\<close>

text \<open>
  The loop over the lines of the file. \<open>section_data\<close> maps a section line to the keys
  seen in it and their merged values; the result is \<open>processed_lines\<close>. A section line is
  entered into \<open>section_data\<close> before any of its keys is read, which is why the lookup of
  the current section always finds a dictionary.
\<close>

type_synonym section_data = "(string \<times> (string \<times> string) list) list"

definition split_first :: "char \<Rightarrow> string \<Rightarrow> string \<times> string" where
  "split_first d s = (takeWhile (\<lambda>c. c \<noteq> d) s, tl (dropWhile (\<lambda>c. c \<noteq> d) s))"

fun preprocess_lines :: "string option \<Rightarrow> section_data \<Rightarrow> string list \<Rightarrow> string list" where
  "preprocess_lines current_section section_data [] = []"
| "preprocess_lines current_section section_data (line # lines) =
     (let stripped_line = strip line
      in if startswith stripped_line ''['' \<and> endswith stripped_line '']'' then
           line # preprocess_lines (Some stripped_line)
                    (AList.update stripped_line [] section_data) lines
         else if CHR ''='' \<in> set stripped_line \<and> truthy current_section then
           (let (key0, val) = split_first (CHR ''='') stripped_line;
                key = lower (strip key0);
                sec = (case current_section of Some s \<Rightarrow> s | None \<Rightarrow> []);
                seen = (case map_of section_data sec of Some d \<Rightarrow> d | None \<Rightarrow> [])
            in case map_of seen key of
                 Some merged \<Rightarrow>
                   preprocess_lines current_section
                     (AList.update sec (AList.update key (merged @ '' '' @ strip val) seen) section_data)
                     lines
               | None \<Rightarrow>
                   line # preprocess_lines current_section
                            (AList.update sec (AList.update key (strip val) seen) section_data)
                            lines)
         else line # preprocess_lines current_section section_data lines)"

definition preprocess_service_file :: "string \<Rightarrow> string list" where
  "preprocess_service_file content =
     preprocess_lines None [] (readlines (universal_newlines content))"

subsection \<open>\<open>replace_systemd_specifiers\<close>\<close>

definition replacements :: "converter \<Rightarrow> (string \<times> string) list" where
  "replacements self =
     [(''%i'', instance_name self),
      (''%I'', instance_name self),
      (''%p'', prefix_name self),
      (''%P'', prefix_name self),
      (''%f'', ''/'' @ instance_name self),
      (''%u'', service_name self),
      (''%U'', service_name self)]"

definition replace_step :: "string \<Rightarrow> string \<times> string \<Rightarrow> string" where
  "replace_step result sr =
     (case sr of (specifier, replacement) \<Rightarrow>
        if contains specifier result then str_replace specifier replacement result else result)"

definition replace_systemd_specifiers :: "converter \<Rightarrow> string \<Rightarrow> string" where
  "replace_systemd_specifiers self content =
     (if \<not> template_service self then content
      else foldl replace_step content (replacements self))"

subsection \<open>\<open>parse_service_file\<close>\<close>

definition basename :: "string \<Rightarrow> string" where
  "basename filepath = rev (takeWhile (\<lambda>c. c \<noteq> CHR ''/'') (rev filepath))"

text \<open>The first part of \<open>parse_service_file\<close>: the name of the service and the template fields.\<close>

definition parse_template :: "converter \<Rightarrow> string \<Rightarrow> error + converter" where
  "parse_template self filepath =
     (let service_basename = basename filepath;
          self = self\<lparr>service_name := str_replace ''.service'' [] service_basename\<rparr>
      in if CHR ''@'' \<in> set (service_name self) then
           (let self = self\<lparr>template_service := True\<rparr>;
                parts = split_sep ''@'' (service_name self);
                self = self\<lparr>prefix_name := (case parts of p # _ \<Rightarrow> p | [] \<Rightarrow> [])\<rparr>
            in if length parts > 1 \<and> parts ! 1 \<noteq> []
               then Inr (self\<lparr>instance_name := parts ! 1\<rparr>)
               else Inl (ValueError ''Template service requires instance name''))
         else Inr self)"

text \<open>The text that is written to the temporary file and handed to the parser.\<close>

definition processed_content :: "converter \<Rightarrow> string \<Rightarrow> string" where
  "processed_content self content =
     replace_systemd_specifiers self (concat (preprocess_service_file content))"

definition parse_service_file :: "converter \<Rightarrow> string \<Rightarrow> string \<Rightarrow> error + converter" where
  "parse_service_file self filepath content =
     (case parse_template self filepath of
        Inl err \<Rightarrow> Inl err
      | Inr self \<Rightarrow>
          (case read_file (processed_content self content) of
             Inl err \<Rightarrow> Inl err
           | Inr cfg \<Rightarrow>
               if \<not> has_section cfg ''Service''
               then Inl (ValueError ''Not a valid systemd service file: missing [Service] section'')
               else Inr (self\<lparr>config := cfg\<rparr>)))"

subsection \<open>\<open>get_config_option\<close>, \<open>get_executable_path\<close>, \<open>get_full_command\<close>\<close>

definition get_config_option :: "converter \<Rightarrow> string \<Rightarrow> string \<Rightarrow> string option \<Rightarrow> string option" where
  "get_config_option self s option fallback = config_get (config self) s option fallback"

text \<open>A call of \<open>get_config_option\<close> whose fallback is a string returns a string.\<close>

definition get_config_str :: "converter \<Rightarrow> string \<Rightarrow> string \<Rightarrow> string \<Rightarrow> string" where
  "get_config_str self s option fallback =
     (case get_config_option self s option (Some fallback) of Some v \<Rightarrow> v | None \<Rightarrow> fallback)"

definition get_executable_path :: "converter \<Rightarrow> error + string" where
  "get_executable_path self =
     (let exec_start = get_config_str self ''Service'' ''ExecStart'' []
      in if exec_start = [] then Inr []
         else (let exec_start = (if startswith exec_start ''-'' then tl exec_start else exec_start)
               in case split_ws exec_start of
                    [] \<Rightarrow> Inl (IndexError ''list index out of range'')
                  | w # _ \<Rightarrow> Inr w))"

definition get_full_command :: "converter \<Rightarrow> string" where
  "get_full_command self =
     (let exec_start = get_config_str self ''Service'' ''ExecStart'' []
      in if exec_start = [] then []
         else if startswith exec_start ''-'' then tl exec_start else exec_start)"

section \<open>The converter: generating the script\<close>

text \<open>
  The generators write with \<open>print\<close>. What a generator has printed is a list of lines
  together with the exception that stopped it, if one did: the lines printed before an
  exception stay printed.
\<close>

type_synonym printed = "string list \<times> error option"

definition prints :: "string list \<Rightarrow> printed" where
  "prints ls = (ls, None)"

definition raises :: "error \<Rightarrow> printed" where
  "raises err = ([], Some err)"

fun seqs :: "printed list \<Rightarrow> printed" where
  "seqs [] = ([], None)"
| "seqs (p # ps) =
     (case p of
        (ls, Some err) \<Rightarrow> (ls, Some err)
      | (ls, None) \<Rightarrow> (case seqs ps of (ms, r) \<Rightarrow> (ls @ ms, r)))"

definition eval_then :: "error + 'a \<Rightarrow> ('a \<Rightarrow> printed) \<Rightarrow> printed" where
  "eval_then v k = (case v of Inl err \<Rightarrow> raises err | Inr x \<Rightarrow> k x)"

text \<open>A value formatted inside an f-string.\<close>

fun fmt :: "string option \<Rightarrow> string" where
  "fmt None = ''None''"
| "fmt (Some s) = s"

text \<open>
  A name read in a function body: \<open>scope\<close> lists the names bound there. A name bound
  neither there nor at module level raises \<open>NameError\<close>.
\<close>

definition name_lookup :: "(string \<times> string) list \<Rightarrow> string \<Rightarrow> error + string" where
  "name_lookup scope n = (case map_of scope n of Some v \<Rightarrow> Inr v | None \<Rightarrow> Inl (NameError n))"

subsection \<open>The LSB header\<close>

text \<open>
  \<open>set_order\<close> stands for the order in which Python iterates over \<open>set(xs)\<close>: some
  enumeration of the distinct elements of \<open>xs\<close>, not fixed by the language.
\<close>

type_synonym set_order = "string list \<Rightarrow> string list"

definition valid_set_order :: "set_order \<Rightarrow> bool" where
  "valid_set_order ord \<longleftrightarrow> (\<forall>xs. set (ord xs) = set xs \<and> distinct (ord xs))"

definition dep_token :: "string list \<Rightarrow> string \<Rightarrow> string list" where
  "dep_token required_deps dep =
     (if dep = ''network.target'' then required_deps @ [''$network'']
      else if dep = ''syslog.target'' then
        (if ''$syslog'' \<notin> set required_deps then required_deps @ [''$syslog''] else required_deps)
      else if dep = ''remote-fs.target'' then required_deps @ [''$remote_fs'']
      else if dep = ''time-sync.target'' then required_deps @ [''$time'']
      else if dep = ''rpcbind.service'' then required_deps @ [''$portmap'']
      else if dep = ''nss-lookup.target'' then required_deps @ [''$named'']
      else required_deps)"

definition dep_option :: "converter \<Rightarrow> string list \<Rightarrow> string \<Rightarrow> string list" where
  "dep_option self required_deps option =
     (let deps = get_config_str self ''Unit'' option []
      in if deps \<noteq> [] then foldl dep_token required_deps (split_ws deps) else required_deps)"

definition required_deps :: "converter \<Rightarrow> error + string list" where
  "required_deps self =
     (case get_executable_path self of
        Inl err \<Rightarrow> Inl err
      | Inr exec_path \<Rightarrow>
          (let deps = [''$syslog'', ''$local_fs''];
               deps = (if exec_path \<noteq> [] \<and> startswith exec_path ''/usr''
                       then deps @ [''$remote_fs''] else deps)
           in Inr (foldl (dep_option self) deps [''After'', ''Requires''])))"

definition want_token :: "string list \<Rightarrow> string \<Rightarrow> string list" where
  "want_token should_deps want =
     (if want = ''network.target'' then should_deps @ [''$network'']
      else if want = ''remote-fs.target'' then should_deps @ [''$remote_fs'']
      else should_deps)"

definition should_deps :: "converter \<Rightarrow> string list" where
  "should_deps self =
     (let wants = get_config_str self ''Unit'' ''Wants'' []
      in if wants \<noteq> [] then foldl want_token [] (split_ws wants) else [])"

definition generate_dependencies :: "set_order \<Rightarrow> converter \<Rightarrow> printed" where
  "generate_dependencies ord self =
     eval_then (required_deps self) (\<lambda>required.
       (let required_str = join '' '' (ord required);
            should = should_deps self
        in prints ([''# Required-Start:'' @ TAB @ required_str,
                    ''# Required-Stop:'' @ TAB @ required_str]
                   @ (if should \<noteq> [] then [''# Should-Start:'' @ TAB @ join '' '' (ord should)]
                      else []))))"

definition generate_runlevels :: "converter \<Rightarrow> printed" where
  "generate_runlevels self =
     (let wanted_by = get_config_str self ''Install'' ''WantedBy'' []
      in if wanted_by = ''multi-user.target'' then
           prints [''# Default-Start:'' @ TAB @ ''2 3 4 5'', ''# Default-Stop:'' @ TAB @ TAB @ ''0 1 6'']
         else if wanted_by = ''graphical.target'' then
           prints [''# Default-Start:'' @ TAB @ ''2 3 4 5'', ''# Default-Stop:'' @ TAB @ TAB @ ''0 1 6'']
         else if wanted_by = ''basic.target'' then
           prints [''# Default-Start:'' @ TAB @ ''1'', ''# Default-Stop:'' @ TAB]
         else if wanted_by = ''rescue.target'' then
           prints [''# Default-Start:'' @ TAB @ ''1'', ''# Default-Stop:'' @ TAB @ ''0 2 3 4 5 6'']
         else
           prints [''# Default-Start:'' @ TAB @ ''2 3 4 5'', ''# Default-Stop:'' @ TAB @ TAB @ ''0 1 6''])"

definition generate_lsb_header :: "set_order \<Rightarrow> converter \<Rightarrow> printed" where
  "generate_lsb_header ord self =
     seqs [prints [''### BEGIN INIT INFO'', ''# Provides: '' @ service_name self],
           generate_dependencies ord self,
           generate_runlevels self,
           prints [''# Short-Description: ''
                   @ get_config_str self ''Unit'' ''Description'' (service_name self)],
           (let documentation = get_config_option self ''Unit'' ''Documentation'' None
            in if truthy documentation then prints [''# Documentation: '' @ fmt documentation]
               else prints []),
           prints [''### END INIT INFO'']]"

subsection \<open>The variable block\<close>

definition export_lines :: "string \<Rightarrow> string list" where
  "export_lines environment =
     map (\<lambda>env_var. ''export '' @ env_var)
         (filter (\<lambda>env_var. CHR ''='' \<in> set env_var) (split_ws environment))"

definition generate_script_variables :: "converter \<Rightarrow> printed" where
  \<open>generate_script_variables self =
     (let env_file = get_config_option self ''Service'' ''EnvironmentFile'' None;
          pidfile = get_config_option self ''Service'' ''PIDFile'' None;
          description = get_config_str self ''Unit'' ''Description'' (service_name self);
          documentation = get_config_option self ''Unit'' ''Documentation'' None;
          environment = get_config_option self ''Service'' ''Environment'' None;
          working_dir = get_config_option self ''Service'' ''WorkingDirectory'' None;
          user = get_config_option self ''Service'' ''User'' None;
          group = get_config_option self ''Service'' ''Group'' None;
          timeout_sec = get_config_option self ''Service'' ''TimeoutSec'' None;
          timeout_start = get_config_option self ''Service'' ''TimeoutStartSec'' None;
          timeout_stop = get_config_option self ''Service'' ''TimeoutStopSec'' None;
          restart = get_config_option self ''Service'' ''Restart'' None;
          oom_score_adjust = get_config_option self ''Service'' ''OOMScoreAdjust'' None
      in prints
          ([''. /lib/lsb/init-functions'', ''prog='' @ service_name self]
           @ (if truthy env_file then
                (let env_file = (if startswith (fmt env_file) ''-'' then tl (fmt env_file)
                                 else fmt env_file)
                 in [''if test -f '' @ env_file @ ''; then'', TAB @ ''. '' @ env_file, ''fi''])
              else [])
           @ (if truthy pidfile then [''PIDFILE='' @ fmt pidfile]
              else [''PIDFILE=/var/run/$prog.pid''])
           @ [''DESC="'' @ description @ ''"'']
           @ (if truthy documentation then [''# Service documentation: '' @ fmt documentation]
              else [])
           @ (if truthy environment then export_lines (fmt environment) else [])
           @ (if truthy working_dir then [''WORKDIR='' @ fmt working_dir] else [])
           @ (if truthy user then [''USER='' @ fmt user] else [])
           @ (if truthy group then [''GROUP='' @ fmt group] else [])
           @ (if truthy timeout_start \<and> timeout_start \<noteq> Some ''0''
              then [''STARTTIMEOUT='' @ fmt timeout_start]
              else if truthy timeout_sec \<and> timeout_sec \<noteq> Some ''0''
              then [''STARTTIMEOUT='' @ fmt timeout_sec]
              else [])
           @ (if truthy timeout_stop \<and> timeout_stop \<noteq> Some ''0''
              then [''STOPTIMEOUT='' @ fmt timeout_stop]
              else if truthy timeout_sec \<and> timeout_sec \<noteq> Some ''0''
              then [''STOPTIMEOUT='' @ fmt timeout_sec]
              else [])
           @ (if truthy restart \<and> restart \<noteq> Some ''no''
              then [''RESTART_MODE='' @ fmt restart,
                    ''RESTART_SEC='' @ get_config_str self ''Service'' ''RestartSec'' ''1'']
              else [])
           @ (if truthy oom_score_adjust then [''OOM_SCORE_ADJUST='' @ fmt oom_score_adjust]
              else [])))\<close>

subsection \<open>The checks after a command\<close>

definition add_success_check :: "string \<Rightarrow> printed" where
  "add_success_check action =
     prints ([TAB @ ''if [ $? -ne 0 ]; then'',
              TAB @ TAB @ ''log_end_msg 1'',
              TAB @ TAB @ ''exit 1'',
              TAB @ ''fi'']
             @ (if action \<noteq> ''startpre''
                then [TAB @ ''if [ $? -eq 0 ]; then'',
                      TAB @ TAB @ ''log_end_msg 0'',
                      TAB @ ''fi'']
                else []))"

text \<open>
  The names bound in the body of \<open>_add_timeout_check\<close> are \<open>self\<close>, \<open>action\<close>,
  \<open>timeout_val\<close> and \<open>exec_path\<close>; the f-strings of the body read \<open>timeout_var\<close>.
\<close>

definition add_timeout_check :: "converter \<Rightarrow> string \<Rightarrow> printed" where
  \<open>add_timeout_check self action =
     (let timeout_val = get_config_option self ''Service'' ''TimeoutSec'' None
      in if timeout_val = Some ''0'' \<or> \<not> truthy timeout_val then add_success_check action
         else
           eval_then (get_executable_path self) (\<lambda>exec_path.
             (let scope = [(''action'', action), (''timeout_val'', fmt timeout_val),
                           (''exec_path'', exec_path)]
              in seqs
                  [eval_then (name_lookup scope ''timeout_var'') (\<lambda>timeout_var.
                     prints [TAB @ ''TIMEOUT=$'' @ timeout_var]),
                   prints [TAB @ ''TEMPPID=$(pidofproc '' @ exec_path @ '')'',
                           TAB @ ''while [ $TIMEOUT -gt 0 ]; do''],
                   (if action = ''start'' then
                      prints [TAB @ TAB @ ''if /bin/kill -0 $TEMPPID 2>/dev/null; then'',
                              TAB @ TAB @ TAB @ ''log_end_msg 0'',
                              TAB @ TAB @ TAB @ ''break'',
                              TAB @ TAB @ ''fi'']
                    else if action = ''stop'' then
                      prints [TAB @ TAB @ ''if ! /bin/kill -0 $TEMPPID 2>/dev/null; then'',
                              TAB @ TAB @ TAB @ ''log_end_msg 0'',
                              TAB @ TAB @ TAB @ ''break'',
                              TAB @ TAB @ ''fi'']
                    else prints []),
                   prints [TAB @ TAB @ ''sleep 1'',
                           TAB @ TAB @ ''TIMEOUT=$((TIMEOUT - 1))'',
                           TAB @ ''done'',
                           [],
                           TAB @ ''if [ $TIMEOUT -eq 0 ]; then''],
                   (if action = ''stop'' then
                      prints [TAB @ TAB @ ''kill -15 $TEMPPID 2>/dev/null'',
                              TAB @ TAB @ ''sleep 2'',
                              TAB @ TAB @ ''kill -9 $TEMPPID 2>/dev/null'',
                              TAB @ TAB @ ''echo "$prog killed"'']
                    else
                      seqs [prints [TAB @ TAB @ ''log_end_msg 1''],
                            eval_then (name_lookup scope ''timeout_var'') (\<lambda>timeout_var.
                              prints [TAB @ TAB @ ''echo "Timeout error occurred trying to ''
                                      @ action @ '' $prog (timeout: $'' @ timeout_var
                                      @ '' seconds)"'']),
                            prints [TAB @ TAB @ ''exit 1'']]),
                   prints [TAB @ ''fi'']])))\<close>

subsection \<open>The action procedures\<close>

text \<open>A command of a \<open>' ; '\<close>-separated list: stripped, with the mark \<open>-\<close> of an optional command split off.\<close>

definition command :: "string \<Rightarrow> bool \<times> string" where
  "command cmd =
     (let cmd = strip cmd; optional = startswith cmd ''-''
      in (optional, if optional then tl cmd else cmd))"

definition condition_guards :: "converter \<Rightarrow> string list" where
  \<open>condition_guards self =
     (let condition_path = get_config_option self ''Unit'' ''ConditionPathExists'' None;
          condition_path_exists_glob = get_config_option self ''Unit'' ''ConditionPathExistsGlob'' None;
          condition_file_not_empty = get_config_option self ''Unit'' ''ConditionFileNotEmpty'' None;
          condition_directory_not_empty =
            get_config_option self ''Unit'' ''ConditionDirectoryNotEmpty'' None
      in (if truthy condition_path then
            [TAB @ ''if [ ! -s '' @ fmt condition_path @ '' ]; then'',
             TAB @ TAB @ ''log_end_msg 1'',
             TAB @ TAB @ ''exit 0'',
             TAB @ ''fi'']
          else [])
         @ (if truthy condition_path_exists_glob then
              [TAB @ ''if ! ls '' @ fmt condition_path_exists_glob @ '' 1> /dev/null 2>&1; then'',
               TAB @ TAB @ ''log_end_msg 1'',
               TAB @ TAB @ ''exit 0'',
               TAB @ ''fi'']
            else [])
         @ (if truthy condition_file_not_empty then
              [TAB @ ''if [ ! -s '' @ fmt condition_file_not_empty @ '' ]; then'',
               TAB @ TAB @ ''log_end_msg 1'',
               TAB @ TAB @ ''exit 0'',
               TAB @ ''fi'']
            else [])
         @ (if truthy condition_directory_not_empty then
              [TAB @ ''if [ ! -d '' @ fmt condition_directory_not_empty @ '' ] || [ -z "$(ls -A ''
                   @ fmt condition_directory_not_empty @ '')" ]; then'',
               TAB @ TAB @ ''log_end_msg 1'',
               TAB @ TAB @ ''exit 0'',
               TAB @ ''fi'']
            else []))\<close>

definition generate_start_function :: "converter \<Rightarrow> printed" where
  \<open>generate_start_function self =
     (let working_dir = get_config_option self ''Service'' ''WorkingDirectory'' None;
          start_pre = get_config_option self ''Service'' ''ExecStartPre'' None;
          exec_start = get_config_option self ''Service'' ''ExecStart'' None;
          start_post = get_config_option self ''Service'' ''ExecStartPost'' None
      in seqs
          [prints [''start() {'', TAB @ ''log_daemon_msg "Starting $DESC" "$prog"''],
           prints (condition_guards self),
           (if truthy working_dir then
              prints [TAB @ ''cd '' @ fmt working_dir @ '' || {'',
                      TAB @ TAB @ ''log_end_msg 1'',
                      TAB @ TAB @ ''exit 1'',
                      TAB @ ''}'']
            else prints []),
           (if truthy start_pre then
              seqs (map (\<lambda>cmd. case command cmd of (optional, cmd) \<Rightarrow>
                           seqs [prints [TAB @ ''start_daemon '' @ cmd],
                                 if \<not> optional then add_success_check ''startpre'' else prints []])
                        (split_sep '' ; '' (fmt start_pre)))
            else prints []),
           (if truthy exec_start then
              (let service_type = lower (get_config_str self ''Service'' ''Type'' ''simple'')
               in if service_type = ''oneshot'' then
                    seqs [prints (map (\<lambda>cmd. TAB @ snd (command cmd))
                                      (split_sep '' ; '' (fmt exec_start))),
                          add_success_check ''start'']
                  else if service_type = ''forking'' then
                    eval_then (get_executable_path self) (\<lambda>exec_path.
                      (let full_cmd = get_full_command self;
                           pidfile_opt =
                             (if truthy (get_config_option self ''Service'' ''PIDFile'' None)
                              then '' -p $PIDFILE'' else [])
                       in seqs [prints [TAB @ ''start_daemon'' @ pidfile_opt @ '' '' @ full_cmd],
                                add_timeout_check self ''start'']))
                  else
                    eval_then (get_executable_path self) (\<lambda>exec_path.
                      (let full_cmd = get_full_command self
                       in seqs
                           [(if full_cmd \<noteq> exec_path then
                               (let args = strip (drop (length exec_path) full_cmd)
                                in if truthy (get_config_option self ''Service'' ''PIDFile'' None)
                                   then prints [TAB @ ''start-stop-daemon --start --background --pidfile $PIDFILE --startas ''
                                                @ exec_path @ '' -- '' @ args]
                                   else prints [TAB @ ''start-stop-daemon --start --background --make-pidfile --pidfile $PIDFILE --startas ''
                                                @ exec_path @ '' -- '' @ args])
                             else
                               (if truthy (get_config_option self ''Service'' ''PIDFile'' None)
                                then prints [TAB @ ''start-stop-daemon --start --background --pidfile $PIDFILE --exec ''
                                             @ exec_path]
                                else prints [TAB @ ''start-stop-daemon --start --background --make-pidfile --pidfile $PIDFILE --exec ''
                                             @ exec_path])),
                            (if service_type \<noteq> ''oneshot'' then add_timeout_check self ''start''
                             else prints [])])))
            else prints []),
           (if truthy start_post then
              seqs (map (\<lambda>cmd. case command cmd of (optional, cmd) \<Rightarrow>
                           seqs [prints [TAB @ ''start_daemon '' @ cmd],
                                 if \<not> optional then add_success_check ''start'' else prints []])
                        (split_sep '' ; '' (fmt start_post)))
            else prints []),
           prints [''}'', []]])\<close>

definition generate_stop_function :: "converter \<Rightarrow> printed" where
  \<open>generate_stop_function self =
     (let exec_stop = get_config_option self ''Service'' ''ExecStop'' None;
          stop_post = get_config_option self ''Service'' ''ExecStopPost'' None
      in seqs
          [prints [''stop() {'', TAB @ ''log_daemon_msg "Stopping $DESC" "$prog"''],
           (if truthy exec_stop then
              seqs [prints (map (\<lambda>cmd. TAB @ snd (command cmd))
                                (split_sep '' ; '' (fmt exec_stop))),
                    add_timeout_check self ''stop'']
            else
              eval_then (get_executable_path self) (\<lambda>exec_path.
                (let kill_signal = get_config_option self ''Service'' ''KillSignal'' None
                 in seqs
                     [(if truthy (get_config_option self ''Service'' ''PIDFile'' None) then
                         prints
                           ([TAB @ ''if [ -f $PIDFILE ]; then'']
                            @ (if truthy kill_signal
                               then [TAB @ TAB @ ''killproc -p $PIDFILE -s '' @ fmt kill_signal
                                     @ '' '' @ exec_path]
                               else [TAB @ TAB @ ''killproc -p $PIDFILE '' @ exec_path])
                            @ [TAB @ ''else'']
                            @ (if truthy kill_signal
                               then [TAB @ TAB @ ''start-stop-daemon --stop --signal ''
                                     @ fmt kill_signal @ '' --name $(basename '' @ exec_path
                                     @ '') --oknodo'']
                               else [TAB @ TAB @ ''start-stop-daemon --stop --name $(basename ''
                                     @ exec_path @ '') --oknodo''])
                            @ [TAB @ ''fi''])
                       else
                         (if truthy kill_signal
                          then prints [TAB @ ''start-stop-daemon --stop --signal ''
                                       @ fmt kill_signal @ '' --name $(basename '' @ exec_path
                                       @ '') --oknodo'']
                          else prints [TAB @ ''start-stop-daemon --stop --name $(basename ''
                                       @ exec_path @ '') --oknodo''])),
                      add_timeout_check self ''stop'']))),
           (if truthy stop_post then
              seqs (map (\<lambda>cmd. case command cmd of (optional, cmd) \<Rightarrow>
                           if optional then prints [TAB @ cmd @ '' || true'']
                           else seqs [prints [TAB @ cmd], add_success_check ''stop''])
                        (split_sep '' ; '' (fmt stop_post)))
            else prints []),
           prints [''}'', []]])\<close>

definition generate_status_function :: "converter \<Rightarrow> printed" where
  \<open>generate_status_function self =
     seqs [prints [''status() {''],
           eval_then (get_executable_path self) (\<lambda>exec_path.
             if truthy (get_config_option self ''Service'' ''PIDFile'' None) then
               prints [TAB @ ''if [ -f $PIDFILE ]; then'',
                       TAB @ TAB @ ''status_of_proc -p $PIDFILE '' @ exec_path @ '' "$prog"'',
                       TAB @ ''else'',
                       TAB @ TAB @ ''status_of_proc '' @ exec_path @ '' "$prog"'',
                       TAB @ ''fi'']
             else prints [TAB @ ''status_of_proc '' @ exec_path @ '' "$prog"'']),
           prints [''}'', []]]\<close>

definition generate_reload_function :: "converter \<Rightarrow> printed" where
  \<open>generate_reload_function self =
     (let exec_reload = get_config_option self ''Service'' ''ExecReload'' None
      in if \<not> truthy exec_reload then prints []
         else
           seqs [prints [''reload() {'', TAB @ ''log_daemon_msg "Reloading $DESC" "$prog"''],
                 seqs (map (\<lambda>cmd. case command cmd of (optional, cmd) \<Rightarrow>
                              seqs [prints [TAB @ cmd],
                                    if \<not> optional then add_success_check ''reload'' else prints []])
                           (split_sep '' ; '' (fmt exec_reload))),
                 prints [TAB @ ''exit 0'', ''}'', []]])\<close>

definition generate_force_reload_function :: "converter \<Rightarrow> printed" where
  \<open>generate_force_reload_function self =
     seqs [prints [''force_reload() {''],
           (if truthy (get_config_option self ''Service'' ''ExecReload'' None) then
              prints [TAB @ ''reload'',
                      TAB @ ''if [ $? -ne 0 ]; then'',
                      TAB @ TAB @ ''restart'',
                      TAB @ ''fi'']
            else prints [TAB @ ''stop'', TAB @ ''start'']),
           prints [''}'', []]]\<close>

definition generate_case_statement :: "converter \<Rightarrow> printed" where
  \<open>generate_case_statement self =
     (let has_reload = (get_config_option self ''Service'' ''ExecReload'' None \<noteq> None)
      in prints
          ([''case "$1" in'',
            TAB @ ''start)'', TAB @ TAB @ ''start'', TAB @ TAB @ '';;'',
            TAB @ ''stop)'', TAB @ TAB @ ''stop'', TAB @ TAB @ '';;'',
            TAB @ ''status)'', TAB @ TAB @ ''status'', TAB @ TAB @ '';;'',
            TAB @ ''force-reload)'', TAB @ TAB @ ''force_reload'', TAB @ TAB @ '';;'',
            TAB @ ''restart)'', TAB @ TAB @ ''stop'', TAB @ TAB @ ''sleep 2'',
            TAB @ TAB @ ''start'', TAB @ TAB @ '';;'']
           @ (if has_reload then [TAB @ ''reload)'', TAB @ TAB @ ''reload'', TAB @ TAB @ '';;'']
              else [])
           @ [TAB @ ''*)'',
              TAB @ TAB @ ''echo "Usage: $0 ''
                @ (if has_reload then ''{start|stop|status|reload|force-reload|restart}''
                   else ''{start|stop|status|force-reload|restart}'') @ ''"'',
              TAB @ TAB @ ''exit 2'',
              ''esac'']))\<close>

subsection \<open>The whole script\<close>

definition generate_init_script :: "set_order \<Rightarrow> converter \<Rightarrow> printed" where
  "generate_init_script ord self =
     seqs [prints [''#!/bin/sh''],
           generate_lsb_header ord self,
           prints [[]],
           generate_script_variables self,
           prints [[]],
           generate_start_function self,
           generate_stop_function self,
           generate_status_function self,
           generate_reload_function self,
           generate_force_reload_function self,
           generate_case_statement self]"

subsection \<open>\<open>main\<close>\<close>

text \<open>
  What a run of the program leaves behind: the lines on standard output and the exit
  status. \<open>main\<close> is modelled from the point where the service file is known to exist.
  \<open>output\<close> is the part of \<open>main\<close> after the file is loaded (writing the script to standard
  output, to the file of \<open>-o\<close> or to \<open>/etc/init.d\<close>); \<open>lib_message\<close> is the text of an
  exception of the configuration parser, which names the temporary file.
\<close>

record outcome =
  stdout :: "string list"
  exit_status :: nat

definition str_of :: "(error \<Rightarrow> string) \<Rightarrow> error \<Rightarrow> string" where
  "str_of lib_message exc = (case exc of ValueError msg \<Rightarrow> msg | _ \<Rightarrow> lib_message exc)"

definition main :: "(error \<Rightarrow> string) \<Rightarrow> (converter \<Rightarrow> outcome) \<Rightarrow> string \<Rightarrow> string \<Rightarrow> outcome" where
  "main lib_message output service_file content =
     (case parse_service_file init service_file content of
        Inl exc \<Rightarrow> \<lparr>stdout = [''Error parsing service file: '' @ str_of lib_message exc],
                    exit_status = 1\<rparr>
      | Inr converter \<Rightarrow> output converter)"

text \<open>The output part of \<open>main\<close> when neither \<open>-o\<close> nor \<open>--install\<close> is given.\<close>

definition output_to_stdout :: "set_order \<Rightarrow> converter \<Rightarrow> outcome" where
  "output_to_stdout ord converter =
     (case generate_init_script ord converter of
        (ls, None) \<Rightarrow> \<lparr>stdout = ls, exit_status = 0\<rparr>
      | (ls, Some exc) \<Rightarrow> \<lparr>stdout = ls, exit_status = 1\<rparr>)"

section \<open>Definitions for the properties\<close>

subsection \<open>Single-pass specifier substitution\<close>

text \<open>
  The substitution as the specification words it: the text is read once from the left;
  a \<open>%\<close> followed by a letter of the table is replaced by the value of that letter, and
  reading goes on behind the token, so the value is not read again.
\<close>

fun one_pass :: "(char \<times> string) list \<Rightarrow> string \<Rightarrow> string" where
  "one_pass tbl [] = []"
| "one_pass tbl [c] = [c]"
| "one_pass tbl (c # d # cs) =
     (if c = CHR ''%'' then
        (case map_of tbl d of
           Some r \<Rightarrow> r @ one_pass tbl cs
         | None \<Rightarrow> c # one_pass tbl (d # cs))
      else c # one_pass tbl (d # cs))"

definition specifier_table :: "converter \<Rightarrow> (char \<times> string) list" where
  "specifier_table self =
     [(CHR ''i'', instance_name self),
      (CHR ''I'', instance_name self),
      (CHR ''p'', prefix_name self),
      (CHR ''P'', prefix_name self),
      (CHR ''f'', ''/'' @ instance_name self),
      (CHR ''u'', service_name self),
      (CHR ''U'', service_name self)]"

definition single_pass_substitute :: "converter \<Rightarrow> string \<Rightarrow> string" where
  "single_pass_substitute self content = one_pass (specifier_table self) content"

subsection \<open>Example units\<close>

text \<open>
  The converter after \<open>parse_template\<close> on \<open>foo@bar.service\<close>, on \<open>foo@%p.service\<close>
  and on \<open>foo@pbar.service\<close>.
\<close>

definition template_foo_bar :: converter where
  "template_foo_bar = init\<lparr>service_name := ''foo@bar'', template_service := True,
                            prefix_name := ''foo'', instance_name := ''bar''\<rparr>"

definition template_foo_percent :: converter where
  "template_foo_percent = init\<lparr>service_name := ''foo@%p'', template_service := True,
                                prefix_name := ''foo'', instance_name := ''%p''\<rparr>"

definition template_foo_pbar :: converter where
  "template_foo_pbar = init\<lparr>service_name := ''foo@pbar'', template_service := True,
                             prefix_name := ''foo'', instance_name := ''pbar''\<rparr>"

subsection \<open>The parts of a template name\<close>

text \<open>
  The prefix is the part of the service name before its first \<open>@\<close>; the instance is the
  part behind that \<open>@\<close>, up to the next \<open>@\<close> or the end of the name.
\<close>

definition template_prefix :: "string \<Rightarrow> string" where
  "template_prefix name = takeWhile (\<lambda>c. c \<noteq> CHR ''@'') name"

definition template_instance :: "string \<Rightarrow> string" where
  "template_instance name =
     takeWhile (\<lambda>c. c \<noteq> CHR ''@'') (tl (dropWhile (\<lambda>c. c \<noteq> CHR ''@'') name))"

text \<open>A unit whose command line names the instance.\<close>

definition unit_exec_i :: string where
  "unit_exec_i = ''[Service]\<newline>ExecStart=/bin/x %i\<newline>''"

subsection \<open>Section headers of a text\<close>

text \<open>
  A text has a \<open>[Service]\<close> header when one of its lines, stripped, is read by the parser
  as the header of the section \<open>Service\<close>. \<open>section_names\<close> are the sections a reader has
  entered so far.
\<close>

definition has_service_header :: "string \<Rightarrow> bool" where
  "has_service_header content \<longleftrightarrow>
     (\<exists>line \<in> set (readlines (universal_newlines content)). sect_header (strip line) = Some ''Service'')"

text \<open>A unit without a \<open>[Service]\<close> section.\<close>

definition unit_no_service :: string where
  "unit_no_service = ''[Unit]\<newline>Description=Foo\<newline>After=network.target\<newline>''"

definition section_names :: "reader \<Rightarrow> string set" where
  "section_names st = fst ` set (r_sections st)"

subsection \<open>The table of facilities\<close>

text \<open>
  The fixed table of the specification from unit names to LSB facilities, and the
  facilities that the tokens of a directive value name.
\<close>

definition facility :: "string \<Rightarrow> string option" where
  "facility dep =
     map_of [(''network.target'', ''$network''),
             (''syslog.target'', ''$syslog''),
             (''remote-fs.target'', ''$remote_fs''),
             (''time-sync.target'', ''$time''),
             (''rpcbind.service'', ''$portmap''),
             (''nss-lookup.target'', ''$named'')] dep"

definition facilities :: "string \<Rightarrow> string set" where
  "facilities deps = {f. \<exists>dep \<in> set (split_ws deps). facility dep = Some f}"

text \<open>
  A parsed unit with \<open>After=network.target syslog.target\<close>, and a unit file with the
  same \<open>After\<close> and its executable under \<open>/usr\<close>, with the converter that
  \<open>parse_service_file\<close> makes of it.
\<close>

definition unit_after :: converter where
  "unit_after =
     init\<lparr>service_name := ''foo'',
          config := \<lparr>defaults = [],
                     sections = [(''Unit'', [(''after'', ''network.target syslog.target'')]),
                                 (''Service'', [(''execstart'', ''/bin/foo --bar'')])]\<rparr>\<rparr>"

definition unit_after_usr_file :: string where
  "unit_after_usr_file =
     ''[Unit]\<newline>After=network.target syslog.target\<newline>[Service]\<newline>ExecStart=/usr/bin/foo --bar\<newline>''"

definition unit_after_usr :: converter where
  "unit_after_usr =
     init\<lparr>service_name := ''foo'',
          config := \<lparr>defaults = [],
                     sections = [(''Unit'', [(''after'', ''network.target syslog.target'')]),
                                 (''Service'', [(''execstart'', ''/usr/bin/foo --bar'')])]\<rparr>\<rparr>"

subsection \<open>Outputs that differ in the order of facilities only\<close>

text \<open>
  Two lines are the same dependency field when both are the same header field, one of
  \<open>Required-Start\<close>, \<open>Required-Stop\<close>, \<open>Should-Start\<close>, followed by the same facilities,
  each once, in some order. Two outputs are the same up to that order when they stop with
  the same exception or none, and are line by line equal or the same dependency field.
\<close>

definition dependency_fields :: "string list" where
  "dependency_fields = [''# Required-Start:'', ''# Required-Stop:'', ''# Should-Start:'']"

definition same_dependency_field :: "string \<Rightarrow> string \<Rightarrow> bool" where
  "same_dependency_field l1 l2 \<longleftrightarrow>
     (\<exists>field ts1 ts2. field \<in> set dependency_fields
        \<and> l1 = field @ TAB @ join '' '' ts1 \<and> l2 = field @ TAB @ join '' '' ts2
        \<and> set ts1 = set ts2 \<and> distinct ts1 \<and> distinct ts2)"

definition same_line :: "string \<Rightarrow> string \<Rightarrow> bool" where
  "same_line l1 l2 \<longleftrightarrow> l1 = l2 \<or> same_dependency_field l1 l2"

definition same_up_to_dependency_order :: "printed \<Rightarrow> printed \<Rightarrow> bool" where
  "same_up_to_dependency_order p q \<longleftrightarrow> snd p = snd q \<and> list_all2 same_line (fst p) (fst q)"

subsection \<open>More example units\<close>

text \<open>
  Unit files and the converters that \<open>parse_service_file\<close> makes of them under the name
  \<open>foo.service\<close>: two \<open>Environment\<close> lines; a start timeout; a general timeout; an empty
  general timeout; an empty \<open>ExecReload\<close>; a \<open>ConditionPathExists\<close>; and a parsed unit
  with \<open>ConditionFileNotEmpty\<close> on the same path.
\<close>

definition unit_environment :: string where
  "unit_environment = ''[Service]\<newline>ExecStart=/bin/foo\<newline>Environment=A=1\<newline>Environment=B=2\<newline>''"

definition unit_environment_loaded :: converter where
  "unit_environment_loaded =
     init\<lparr>service_name := ''foo'',
          config := \<lparr>defaults = [],
                     sections = [(''Service'', [(''execstart'', ''/bin/foo''),
                                                (''environment'', ''A=1'')])]\<rparr>\<rparr>"

definition unit_timeout_start :: string where
  "unit_timeout_start = ''[Service]\<newline>ExecStart=/bin/foo\<newline>TimeoutStartSec=5\<newline>''"

definition unit_timeout_start_loaded :: converter where
  "unit_timeout_start_loaded =
     init\<lparr>service_name := ''foo'',
          config := \<lparr>defaults = [],
                     sections = [(''Service'', [(''execstart'', ''/bin/foo''),
                                                (''timeoutstartsec'', ''5'')])]\<rparr>\<rparr>"

definition unit_timeout_sec :: string where
  "unit_timeout_sec = ''[Service]\<newline>ExecStart=/bin/foo\<newline>TimeoutSec=5\<newline>''"

definition unit_timeout_sec_loaded :: converter where
  "unit_timeout_sec_loaded =
     init\<lparr>service_name := ''foo'',
          config := \<lparr>defaults = [],
                     sections = [(''Service'', [(''execstart'', ''/bin/foo''),
                                                (''timeoutsec'', ''5'')])]\<rparr>\<rparr>"

definition unit_timeout_empty :: string where
  "unit_timeout_empty = ''[Service]\<newline>ExecStart=/bin/foo\<newline>TimeoutSec=\<newline>''"

definition unit_timeout_empty_loaded :: converter where
  "unit_timeout_empty_loaded =
     init\<lparr>service_name := ''foo'',
          config := \<lparr>defaults = [],
                     sections = [(''Service'', [(''execstart'', ''/bin/foo''),
                                                (''timeoutsec'', [])])]\<rparr>\<rparr>"

definition unit_reload_empty :: string where
  "unit_reload_empty = ''[Service]\<newline>ExecStart=/bin/foo\<newline>ExecReload=\<newline>''"

definition unit_reload_empty_loaded :: converter where
  "unit_reload_empty_loaded =
     init\<lparr>service_name := ''foo'',
          config := \<lparr>defaults = [],
                     sections = [(''Service'', [(''execstart'', ''/bin/foo''),
                                                (''execreload'', [])])]\<rparr>\<rparr>"

definition unit_condition_path :: string where
  "unit_condition_path =
     ''[Unit]\<newline>ConditionPathExists=/etc/foo.conf\<newline>[Service]\<newline>ExecStart=/bin/foo\<newline>''"

definition unit_condition_path_loaded :: converter where
  "unit_condition_path_loaded =
     init\<lparr>service_name := ''foo'',
          config := \<lparr>defaults = [],
                     sections = [(''Unit'', [(''conditionpathexists'', ''/etc/foo.conf'')]),
                                 (''Service'', [(''execstart'', ''/bin/foo'')])]\<rparr>\<rparr>"

definition unit_condition_file :: converter where
  "unit_condition_file =
     init\<lparr>service_name := ''foo'',
          config := \<lparr>defaults = [],
                     sections = [(''Unit'', [(''conditionfilenotempty'', ''/etc/foo.conf'')]),
                                 (''Service'', [(''execstart'', ''/bin/foo'')])]\<rparr>\<rparr>"

subsection \<open>How a generator ends\<close>

text \<open>
  A generator stops when an exception ends it; \<open>only_name_error\<close> holds when it ends
  without an exception or with the \<open>NameError\<close> of \<open>timeout_var\<close>.
\<close>

definition only_name_error :: "printed \<Rightarrow> bool" where
  "only_name_error p \<longleftrightarrow> snd p = None \<or> snd p = Some (NameError ''timeout_var'')"

definition stops :: "printed \<Rightarrow> bool" where
  "stops p \<longleftrightarrow> snd p \<noteq> None"

section \<open>Properties\<close>

subsection \<open>Evaluation of the example units\<close>

text \<open>The definitions that the simplifier unfolds to run the model on a unit.\<close>

lemmas eval_strings = strip_def lstrip_def rstrip_def isspace_def endswith_def split_first_def
  lower_def lower_char_def split_ws_def

lemmas eval_loader = parse_service_file_def parse_template_def basename_def processed_content_def
  preprocess_service_file_def replace_systemd_specifiers_def init_def Let_def

lemmas eval_reader = read_file_def read_line_def new_reader_def sect_header_def opt_match_def
  is_delim_def cursect_def cursect_update_def append_value_def join_multiline_values_def
  has_section_def

lemmas eval_config = get_config_option_def get_config_str_def config_get_def

lemmas eval_printed = prints_def raises_def eval_then_def name_lookup_def add_success_check_def
  command_def

subsection \<open>Facts about strings\<close>

lemma str_replace_absent: "\<not> contains old s \<Longrightarrow> str_replace old new s = s"
  by (induction s) (auto split: if_splits)

lemma str_replace_token_append:
  "CHR ''%'' \<notin> set a \<Longrightarrow> str_replace [CHR ''%'', x] r (a @ s) = a @ str_replace [CHR ''%'', x] r s"
  by (induction a) auto

subsection \<open>Specifier substitution\<close>

lemma one_pass_empty: "one_pass [] t = t"
  by (induction "[]::(char \<times> string) list" t rule: one_pass.induct) auto

lemma one_pass_Cons_other: "c \<noteq> CHR ''%'' \<Longrightarrow> one_pass tbl (c # cs) = c # one_pass tbl cs"
  by (cases cs) auto

lemma replace_step_eq:
  "replace_step result (specifier, replacement) = str_replace specifier replacement result"
  by (simp add: replace_step_def str_replace_absent)

text \<open>
  One replacement of the loop, run over a text that a single pass has produced, gives the
  single pass for the table with one more letter: the values put in so far hold no
  \<open>%\<close>, and no \<open>%\<close> stands in front of a token.
\<close>

lemma replace_one_pass:
  "\<forall>v \<in> snd ` set tbl. CHR ''%'' \<notin> set v \<Longrightarrow> x \<noteq> CHR ''%'' \<Longrightarrow> map_of tbl x = None \<Longrightarrow>
   \<not> contains ''%%'' t \<Longrightarrow>
   str_replace [CHR ''%'', x] r (one_pass tbl t) = one_pass (tbl @ [(x, r)]) t"
proof (induction tbl t rule: one_pass.induct)
  case (1 tbl)
  then show ?case by simp
next
  case (2 tbl c)
  then show ?case by simp
next
  case (3 tbl c d cs)
  from "3.prems"(4) have nd: "\<not> contains ''%%'' (d # cs)"
    and ncs: "\<not> contains ''%%'' cs"
    and cd: "\<not> (c = CHR ''%'' \<and> d = CHR ''%'')"
    by auto
  show ?case
  proof (cases "c = CHR ''%''")
    case False
    have "str_replace [CHR ''%'', x] r (one_pass tbl (d # cs)) = one_pass (tbl @ [(x, r)]) (d # cs)"
      using "3.IH"(3) [OF False "3.prems"(1,2,3) nd] .
    with False show ?thesis by simp
  next
    case True
    with cd have d: "d \<noteq> CHR ''%''" by simp
    show ?thesis
    proof (cases "map_of tbl d")
      case (Some r')
      then have "(d, r') \<in> set tbl" by (rule map_of_SomeD)
      with "3.prems"(1) have np: "CHR ''%'' \<notin> set r'" by force
      have "str_replace [CHR ''%'', x] r (one_pass tbl cs) = one_pass (tbl @ [(x, r)]) cs"
        using "3.IH"(2) [OF True Some "3.prems"(1,2,3) ncs] .
      with True Some np show ?thesis
        by (simp add: str_replace_token_append map_of_append map_add_def)
    next
      case None
      have ih: "str_replace [CHR ''%'', x] r (one_pass tbl (d # cs)) = one_pass (tbl @ [(x, r)]) (d # cs)"
        using "3.IH"(1) [OF True None "3.prems"(1,2,3) nd] .
      from d have op: "\<And>T. one_pass T (d # cs) = d # one_pass T cs"
        by (rule one_pass_Cons_other)
      from ih d have ih': "str_replace [CHR ''%'', x] r (one_pass tbl cs) = one_pass (tbl @ [(x, r)]) cs"
        by (simp add: op)
      show ?thesis
      proof (cases "d = x")
        case True
        with \<open>c = CHR ''%''\<close> None ih' "3.prems"(2,3) show ?thesis
          by (simp add: one_pass_Cons_other map_of_append map_add_def)
      next
        case False
        with \<open>c = CHR ''%''\<close> None ih' d show ?thesis
          by (simp add: op map_of_append map_add_def)
      qed
    qed
  qed
qed

lemma fold_replacements:
  assumes "CHR ''%'' \<notin> set (instance_name self)"
    and "CHR ''%'' \<notin> set (prefix_name self)"
    and "CHR ''%'' \<notin> set (service_name self)"
    and "\<not> contains ''%%'' content"
  shows "foldl replace_step content (replacements self) = one_pass (specifier_table self) content"
proof -
  let ?i = "instance_name self" and ?p = "prefix_name self" and ?u = "service_name self"
  let ?t1 = "[(CHR ''i'', ?i)]"
  let ?t2 = "?t1 @ [(CHR ''I'', ?i)]"
  let ?t3 = "?t2 @ [(CHR ''p'', ?p)]"
  let ?t4 = "?t3 @ [(CHR ''P'', ?p)]"
  let ?t5 = "?t4 @ [(CHR ''f'', ''/'' @ ?i)]"
  let ?t6 = "?t5 @ [(CHR ''u'', ?u)]"
  let ?t7 = "?t6 @ [(CHR ''U'', ?u)]"
  have s1: "str_replace ''%i'' ?i content = one_pass ?t1 content"
    using replace_one_pass [of "[]" "CHR ''i''" content "?i"] assms(4) by (simp add: one_pass_empty)
  have s2: "str_replace ''%I'' ?i (one_pass ?t1 content) = one_pass ?t2 content"
    using assms by (intro replace_one_pass) auto
  have s3: "str_replace ''%p'' ?p (one_pass ?t2 content) = one_pass ?t3 content"
    using assms by (intro replace_one_pass) auto
  have s4: "str_replace ''%P'' ?p (one_pass ?t3 content) = one_pass ?t4 content"
    using assms by (intro replace_one_pass) auto
  have s5: "str_replace ''%f'' (''/'' @ ?i) (one_pass ?t4 content) = one_pass ?t5 content"
    using assms by (intro replace_one_pass) auto
  have s6: "str_replace ''%u'' ?u (one_pass ?t5 content) = one_pass ?t6 content"
    using assms by (intro replace_one_pass) auto
  have s7: "str_replace ''%U'' ?u (one_pass ?t6 content) = one_pass ?t7 content"
    using assms by (intro replace_one_pass) auto
  have "foldl replace_step content (replacements self) = one_pass ?t7 content"
    by (simp only: replacements_def foldl.simps replace_step_eq s1 s2 s3 s4 s5 s6 s7)
  then show ?thesis by (simp add: specifier_table_def)
qed

text \<open>
  Claim C4, as amended. For a template unit, \<open>replace_systemd_specifiers\<close> replaces
  \<open>%i %I %p %P %f %u %U\<close> by instance, instance, prefix, prefix, \<open>/\<close> and instance,
  service name, service name, one token after the other over the whole text. Its result
  is the single-pass substitution whenever instance, prefix and service name hold no
  \<open>%\<close> and the text holds no \<open>%%\<close>.
\<close>

theorem specifiers_single_pass:
  assumes "template_service self"
    and "CHR ''%'' \<notin> set (instance_name self)"
    and "CHR ''%'' \<notin> set (prefix_name self)"
    and "CHR ''%'' \<notin> set (service_name self)"
    and "\<not> contains ''%%'' content"
  shows "replace_systemd_specifiers self content = single_pass_substitute self content"
  using assms
  by (simp add: replace_systemd_specifiers_def single_pass_substitute_def fold_replacements)

theorem specifiers_single_pass_witness:
  "template_service template_foo_bar
   \<and> CHR ''%'' \<notin> set (instance_name template_foo_bar)
   \<and> CHR ''%'' \<notin> set (prefix_name template_foo_bar)
   \<and> CHR ''%'' \<notin> set (service_name template_foo_bar)
   \<and> \<not> contains ''%%'' ''ExecStart=/bin/x %i %I %p %P %f %u %U %h''
   \<and> replace_systemd_specifiers template_foo_bar ''ExecStart=/bin/x %i %I %p %P %f %u %U %h''
       = single_pass_substitute template_foo_bar ''ExecStart=/bin/x %i %I %p %P %f %u %U %h''
   \<and> single_pass_substitute template_foo_bar ''ExecStart=/bin/x %i %I %p %P %f %u %U %h''
       = ''ExecStart=/bin/x bar bar foo foo /bar foo@bar foo@bar %h''"
  using specifiers_single_pass [of template_foo_bar "''ExecStart=/bin/x %i %I %p %P %f %u %U %h''"]
  by (simp add: template_foo_bar_def init_def single_pass_substitute_def specifier_table_def)

text \<open>
  Claim C4, as stated, fails. On \<open>foo@%p.service\<close> the instance is \<open>%p\<close>: the
  replacement of \<open>%i\<close> puts \<open>%p\<close> into the text, and the later replacement of \<open>%p\<close>
  turns it into the prefix. With instance \<open>pbar\<close>, the \<open>%\<close> in front of \<open>%i\<close> and the
  first letter of the value make a new token \<open>%p\<close>.
\<close>

theorem specifiers_single_pass_counterexample:
  "parse_template init ''/etc/systemd/system/foo@%p.service'' = Inr template_foo_percent
   \<and> replace_systemd_specifiers template_foo_percent ''ExecStart=/bin/x %i'' = ''ExecStart=/bin/x foo''
   \<and> single_pass_substitute template_foo_percent ''ExecStart=/bin/x %i'' = ''ExecStart=/bin/x %p''
   \<and> parse_template init ''/etc/systemd/system/foo@pbar.service'' = Inr template_foo_pbar
   \<and> replace_systemd_specifiers template_foo_pbar ''100%%i'' = ''100foobar''
   \<and> single_pass_substitute template_foo_pbar ''100%%i'' = ''100%pbar''"
  by (simp add: parse_template_def basename_def template_foo_percent_def template_foo_pbar_def
      init_def replace_systemd_specifiers_def replacements_def replace_step_def
      single_pass_substitute_def specifier_table_def)

subsection \<open>Template units\<close>

lemma split_sep_at:
  "split_sep ''@'' s =
     takeWhile (\<lambda>c. c \<noteq> CHR ''@'') s
     # (if CHR ''@'' \<in> set s then split_sep ''@'' (tl (dropWhile (\<lambda>c. c \<noteq> CHR ''@'') s)) else [])"
  by (induction s) auto

lemma split_sep_nonempty: "split_sep sep s \<noteq> []"
  by (induction s) (auto split: list.splits)

lemma parse_template_at:
  assumes "name = str_replace ''.service'' [] (basename filepath)" and "CHR ''@'' \<in> set name"
  shows "parse_template self filepath =
           (if template_instance name = []
            then Inl (ValueError ''Template service requires instance name'')
            else Inr (self\<lparr>service_name := name, template_service := True,
                           prefix_name := template_prefix name,
                           instance_name := template_instance name\<rparr>))"
proof -
  let ?rest = "tl (dropWhile (\<lambda>c. c \<noteq> CHR ''@'') name)"
  have parts: "split_sep ''@'' name = template_prefix name # split_sep ''@'' ?rest"
    using assms(2) by (subst split_sep_at) (simp add: template_prefix_def)
  have "hd (split_sep ''@'' ?rest) = template_instance name"
    by (subst split_sep_at) (simp add: template_instance_def)
  then have rest: "split_sep ''@'' ?rest = template_instance name # tl (split_sep ''@'' ?rest)"
    using split_sep_nonempty [of "''@''" ?rest] by (cases "split_sep ''@'' ?rest") auto
  have len: "length (split_sep ''@'' name) > 1"
    by (subst parts, subst rest) simp
  have nth: "split_sep ''@'' name ! 1 = template_instance name"
    by (subst parts, subst rest) simp
  show ?thesis
    using assms len nth parts
    by (simp add: parse_template_def Let_def)
qed

lemma startswith_append: "startswith a sub \<Longrightarrow> startswith (a @ b) sub"
  by (induction a sub rule: startswith.induct) auto

lemma startswith_append_Cons: "startswith (c # a) sub \<Longrightarrow> startswith (c # a @ b) sub"
  using startswith_append [of "c # a" sub b] by simp

lemma contains_empty: "contains [] s"
  by (cases s) auto

lemma contains_append_left: "contains sub a \<Longrightarrow> contains sub (a @ b)"
  by (induction a) (auto simp: contains_empty startswith_append_Cons)

lemma contains_append_right: "contains sub b \<Longrightarrow> contains sub (a @ b)"
  by (induction a) auto

lemma contains_percent_junction:
  "a \<noteq> [] \<Longrightarrow> last a = CHR ''%'' \<Longrightarrow> contains ''%%'' (a @ CHR ''%'' # r)"
  by (induction a) (auto split: if_splits)

lemma one_pass_append:
  "a = [] \<or> last a \<noteq> CHR ''%'' \<Longrightarrow> one_pass tbl (a @ t) = one_pass tbl a @ one_pass tbl t"
proof (induction tbl a rule: one_pass.induct)
  case (1 tbl)
  then show ?case by simp
next
  case (2 tbl c)
  then show ?case by (simp add: one_pass_Cons_other)
next
  case (3 tbl c d cs)
  then show ?case by (auto split: option.splits if_splits)
qed

lemma one_pass_token:
  assumes "\<not> contains ''%%'' (a @ CHR ''%'' # x # b)" and "map_of tbl x = Some r"
  shows "one_pass tbl (a @ CHR ''%'' # x # b) = one_pass tbl a @ r @ one_pass tbl b"
proof -
  have "a = [] \<or> last a \<noteq> CHR ''%''"
    using assms(1) contains_percent_junction [of a "x # b"] by blast
  then have "one_pass tbl (a @ CHR ''%'' # x # b) = one_pass tbl a @ one_pass tbl (CHR ''%'' # x # b)"
    by (rule one_pass_append)
  with assms(2) show ?thesis by simp
qed

lemma percent_free_parts:
  assumes "CHR ''%'' \<notin> set name"
  shows "CHR ''%'' \<notin> set (template_prefix name)" and "CHR ''%'' \<notin> set (template_instance name)"
proof -
  have "c \<in> set name" if "c \<in> set (template_prefix name)" for c
    using that unfolding template_prefix_def by (rule set_takeWhileD [THEN conjunct1])
  with assms show "CHR ''%'' \<notin> set (template_prefix name)"
    by blast
  have "c \<in> set name" if h: "c \<in> set (template_instance name)" for c
  proof -
    let ?d = "dropWhile (\<lambda>c. c \<noteq> CHR ''@'') name"
    from h have "c \<in> set (tl ?d)"
      unfolding template_instance_def by (rule set_takeWhileD [THEN conjunct1])
    then have "c \<in> set ?d"
      by (cases ?d) simp_all
    then show ?thesis
      by (rule set_dropWhileD)
  qed
  with assms show "CHR ''%'' \<notin> set (template_instance name)"
    by blast
qed

lemma substituted_token:
  assumes tmpl: "template_service self"
    and pf: "CHR ''%'' \<notin> set (instance_name self)" "CHR ''%'' \<notin> set (prefix_name self)"
      "CHR ''%'' \<notin> set (service_name self)"
    and x: "x = CHR ''i'' \<or> x = CHR ''I''"
    and npp: "\<not> contains ''%%'' (a @ CHR ''%'' # x # b)"
  shows "replace_systemd_specifiers self (a @ CHR ''%'' # x # b) =
           replace_systemd_specifiers self a @ instance_name self @ replace_systemd_specifiers self b"
proof -
  have na: "\<not> contains ''%%'' a"
    using npp contains_append_left by blast
  have "\<not> contains ''%%'' (CHR ''%'' # x # b)"
    using npp contains_append_right by blast
  then have nb: "\<not> contains ''%%'' b"
    by (auto split: if_splits)
  have tok: "map_of (specifier_table self) x = Some (instance_name self)"
    using x by (auto simp: specifier_table_def)
  have "replace_systemd_specifiers self (a @ CHR ''%'' # x # b) =
          one_pass (specifier_table self) (a @ CHR ''%'' # x # b)"
    using tmpl pf npp by (simp add: replace_systemd_specifiers_def fold_replacements)
  also have "\<dots> = one_pass (specifier_table self) a @ instance_name self @ one_pass (specifier_table self) b"
    using npp tok by (rule one_pass_token)
  also have "\<dots> = replace_systemd_specifiers self a @ instance_name self @ replace_systemd_specifiers self b"
    using tmpl pf na nb by (simp add: replace_systemd_specifiers_def fold_replacements)
  finally show ?thesis .
qed

text \<open>
  Claim C6, as amended. For a base name whose form without \<open>.service\<close> contains \<open>@\<close>,
  loading fails with the template error when the instance part is empty; otherwise the
  converter is a template with the prefix before the first \<open>@\<close> and the instance between
  the first \<open>@\<close> and the next one or the end (prefix \<open>foo\<close>, instance \<open>bar\<close> for
  \<open>foo@bar.service\<close>). When the name holds no \<open>%\<close> and the preprocessed text no \<open>%%\<close>,
  each \<open>%i\<close> and \<open>%I\<close> of the text is the instance in the text handed to the parser, the
  text before and behind it being substituted on its own.
\<close>

theorem template_loading:
  assumes "name = str_replace ''.service'' [] (basename filepath)" and "CHR ''@'' \<in> set name"
  shows "(template_instance name = [] \<longrightarrow>
            parse_service_file init filepath content =
              Inl (ValueError ''Template service requires instance name''))
       \<and> (template_instance name \<noteq> [] \<longrightarrow>
            (\<exists>self. parse_template init filepath = Inr self
               \<and> template_service self
               \<and> service_name self = name
               \<and> prefix_name self = template_prefix name
               \<and> instance_name self = template_instance name
               \<and> (\<forall>x a b. (x = CHR ''i'' \<or> x = CHR ''I'')
                      \<and> CHR ''%'' \<notin> set name
                      \<and> concat (preprocess_service_file content) = a @ CHR ''%'' # x # b
                      \<and> \<not> contains ''%%'' (a @ CHR ''%'' # x # b)
                    \<longrightarrow> processed_content self content =
                          replace_systemd_specifiers self a @ template_instance name
                          @ replace_systemd_specifiers self b)))"
proof (intro conjI impI)
  assume "template_instance name = []"
  then show "parse_service_file init filepath content =
               Inl (ValueError ''Template service requires instance name'')"
    using parse_template_at [OF assms, of init] by (simp add: parse_service_file_def)
next
  assume ne: "template_instance name \<noteq> []"
  let ?self = "init\<lparr>service_name := name, template_service := True,
                     prefix_name := template_prefix name,
                     instance_name := template_instance name\<rparr>"
  have pt: "parse_template init filepath = Inr ?self"
    using parse_template_at [OF assms, of init] ne by simp
  have sub: "processed_content ?self content =
               replace_systemd_specifiers ?self a @ template_instance name
               @ replace_systemd_specifiers ?self b"
    if "x = CHR ''i'' \<or> x = CHR ''I''" and "CHR ''%'' \<notin> set name"
      and "concat (preprocess_service_file content) = a @ CHR ''%'' # x # b"
      and "\<not> contains ''%%'' (a @ CHR ''%'' # x # b)" for x a b
  proof -
    from that(2) have pf: "CHR ''%'' \<notin> set (template_prefix name)"
      "CHR ''%'' \<notin> set (template_instance name)"
      by (rule percent_free_parts)+
    have "replace_systemd_specifiers ?self (a @ CHR ''%'' # x # b) =
            replace_systemd_specifiers ?self a @ instance_name ?self
            @ replace_systemd_specifiers ?self b"
      by (rule substituted_token) (use that pf in simp_all)
    then show ?thesis
      by (simp add: processed_content_def that(3))
  qed
  have all: "\<forall>x a b. (x = CHR ''i'' \<or> x = CHR ''I'')
                      \<and> CHR ''%'' \<notin> set name
                      \<and> concat (preprocess_service_file content) = a @ CHR ''%'' # x # b
                      \<and> \<not> contains ''%%'' (a @ CHR ''%'' # x # b)
                    \<longrightarrow> processed_content ?self content =
                          replace_systemd_specifiers ?self a @ template_instance name
                          @ replace_systemd_specifiers ?self b"
    by (intro allI impI, elim conjE, rule sub)
  show "\<exists>self. parse_template init filepath = Inr self
               \<and> template_service self
               \<and> service_name self = name
               \<and> prefix_name self = template_prefix name
               \<and> instance_name self = template_instance name
               \<and> (\<forall>x a b. (x = CHR ''i'' \<or> x = CHR ''I'')
                      \<and> CHR ''%'' \<notin> set name
                      \<and> concat (preprocess_service_file content) = a @ CHR ''%'' # x # b
                      \<and> \<not> contains ''%%'' (a @ CHR ''%'' # x # b)
                    \<longrightarrow> processed_content self content =
                          replace_systemd_specifiers self a @ template_instance name
                          @ replace_systemd_specifiers self b)"
    by (intro exI [of _ ?self] conjI) (rule pt, simp, simp, simp, simp, rule all)
qed

theorem template_loading_witness:
  "CHR ''@'' \<in> set (str_replace ''.service'' [] (basename ''/etc/systemd/system/foo@bar.service''))
   \<and> parse_template init ''/etc/systemd/system/foo@bar.service'' = Inr template_foo_bar
   \<and> template_prefix ''foo@bar'' = ''foo''
   \<and> template_instance ''foo@bar'' = ''bar''
   \<and> processed_content template_foo_bar unit_exec_i = ''[Service]\<newline>ExecStart=/bin/x bar\<newline>''
   \<and> CHR ''@'' \<in> set (str_replace ''.service'' [] (basename ''/etc/systemd/system/foo@.service''))
   \<and> template_instance ''foo@'' = []
   \<and> parse_service_file init ''/etc/systemd/system/foo@.service'' unit_exec_i
       = Inl (ValueError ''Template service requires instance name'')"
  using template_loading [of "''foo@bar''" "''/etc/systemd/system/foo@bar.service''" unit_exec_i]
    template_loading [of "''foo@''" "''/etc/systemd/system/foo@.service''" unit_exec_i]
  by (simp add: basename_def template_instance_def template_prefix_def template_foo_bar_def
      init_def parse_template_def parse_service_file_def processed_content_def
      preprocess_service_file_def unit_exec_i_def strip_def lstrip_def rstrip_def isspace_def
      endswith_def split_first_def lower_def lower_char_def replace_systemd_specifiers_def
      replacements_def replace_step_def Let_def)

text \<open>
  Claim C6, as stated, fails. On \<open>foo@%p.service\<close> the instance is \<open>%p\<close>; the \<open>%i\<close> of
  the command line reaches the parser as the prefix \<open>foo\<close>, and the instance does not stand
  in the text handed to the parser at all.
\<close>

theorem template_loading_counterexample:
  "parse_template init ''/etc/systemd/system/foo@%p.service'' = Inr template_foo_percent
   \<and> instance_name template_foo_percent = ''%p''
   \<and> concat (preprocess_service_file unit_exec_i) = ''[Service]\<newline>ExecStart=/bin/x %i\<newline>''
   \<and> processed_content template_foo_percent unit_exec_i = ''[Service]\<newline>ExecStart=/bin/x foo\<newline>''
   \<and> \<not> contains (instance_name template_foo_percent) (processed_content template_foo_percent unit_exec_i)"
  by (simp add: basename_def template_foo_percent_def
      init_def parse_template_def processed_content_def
      preprocess_service_file_def unit_exec_i_def strip_def lstrip_def rstrip_def isspace_def
      endswith_def split_first_def lower_def lower_char_def replace_systemd_specifiers_def
      replacements_def replace_step_def Let_def)

subsection \<open>Units without a \<open>[Service]\<close> section\<close>

lemma section_names_updates:
  "section_names (st\<lparr>indent_level := i\<rparr>) = section_names st"
  "section_names (st\<lparr>e := b\<rparr>) = section_names st"
  "section_names (st\<lparr>optname := k\<rparr>) = section_names st"
  "section_names (st\<lparr>sectname := n\<rparr>) = section_names st"
  "section_names (st\<lparr>elements_added := es\<rparr>) = section_names st"
  "section_names (st\<lparr>r_defaults := d\<rparr>) = section_names st"
  "section_names (st\<lparr>r_sections := xs\<rparr>) = fst ` set xs"
  by (simp_all add: section_names_def)

lemma cursect_update_sections:
  "section_names (cursect_update f k st) = section_names st"
proof (cases "sectname st")
  case None
  then show ?thesis by (simp add: cursect_update_def)
next
  case (Some s)
  show ?thesis
  proof (cases "map_of (r_sections st) s")
    case None
    with Some show ?thesis by (simp add: cursect_update_def section_names_def)
  next
    case (Some d)
    then have "s \<in> fst ` set (r_sections st)"
      by (metis domI dom_map_of_conv_image_fst)
    with Some \<open>sectname st = Some s\<close> show ?thesis
      by (auto simp: cursect_update_def dom_update section_names_def)
  qed
qed

lemma read_line_sections:
  assumes "read_line st line = Inr st'"
  shows "section_names st' \<subseteq> section_names st \<union> {h. sect_header (strip line) = Some h}"
  using assms [symmetric] unfolding read_line_def Let_def
  by (simp add: cursect_update_sections section_names_updates section_names_def [symmetric]
      subset_insertI split: if_splits option.splits prod.splits)

lemma read_lines_sections:
  "read_lines st lines = Inr st' \<Longrightarrow>
   section_names st' \<subseteq> section_names st \<union> {h. \<exists>line \<in> set lines. sect_header (strip line) = Some h}"
proof (induction lines arbitrary: st)
  case Nil
  then show ?case by simp
next
  case (Cons line lines)
  from Cons.prems obtain st1 where l: "read_line st line = Inr st1"
    and ls: "read_lines st1 lines = Inr st'"
    by (auto split: sum.splits)
  from read_line_sections [OF l] Cons.IH [OF ls] show ?case
    by auto
qed

lemma no_header_no_section:
  assumes "\<not> has_service_header content" and "read_file content = Inr cfg"
  shows "\<not> has_section cfg ''Service''"
proof -
  from assms(2) obtain st where st: "read_lines new_reader (readlines (universal_newlines content)) = Inr st"
    and cfg: "sections cfg = map (\<lambda>(name, options). (name, join_multiline_values options)) (r_sections st)"
    by (auto simp: read_file_def split: sum.splits if_splits)
  have "fst ` set (sections cfg) = section_names st"
    by (force simp: cfg section_names_def)
  moreover have "''Service'' \<notin> section_names st"
    using read_lines_sections [OF st] assms(1)
    by (auto simp: has_service_header_def section_names_def new_reader_def)
  ultimately show ?thesis
    by (simp add: has_section_def)
qed

text \<open>
  Claim C5. When the text handed to the parser, if it is parsed at all, has no section
  \<open>Service\<close> (as is the case when none of its lines is a \<open>[Service]\<close> header),
  \<open>parse_service_file\<close> fails: with the error of the template name or of the parser if
  one of them refuses the file, and otherwise with the error that the \<open>[Service]\<close> section
  is missing. \<open>main\<close> then prints the one line that reports the error and exits with
  status 1; the output part of \<open>main\<close>, which generates the script, is not run, whichever
  it is.
\<close>

theorem missing_service_section:
  assumes "\<forall>self cfg. parse_template init filepath = Inr self
             \<and> read_file (processed_content self content) = Inr cfg
             \<longrightarrow> \<not> has_section cfg ''Service''"
  shows "\<exists>exc. parse_service_file init filepath content = Inl exc
           \<and> main lib_message output filepath content =
               \<lparr>stdout = [''Error parsing service file: '' @ str_of lib_message exc],
                exit_status = 1\<rparr>
           \<and> (\<forall>self cfg. parse_template init filepath = Inr self
                  \<and> read_file (processed_content self content) = Inr cfg
                \<longrightarrow> exc = ValueError ''Not a valid systemd service file: missing [Service] section'')"
proof (cases "parse_template init filepath")
  case (Inl err)
  then show ?thesis
    by (simp add: parse_service_file_def main_def)
next
  case (Inr self)
  show ?thesis
  proof (cases "read_file (processed_content self content)")
    case (Inl err)
    with Inr show ?thesis
      by (simp add: parse_service_file_def main_def)
  next
    case (Inr cfg)
    with assms \<open>parse_template init filepath = Inr self\<close> have "\<not> has_section cfg ''Service''"
      by blast
    with Inr \<open>parse_template init filepath = Inr self\<close> show ?thesis
      by (simp add: parse_service_file_def main_def)
  qed
qed

theorem missing_service_section_witness:
  "parse_template init ''/etc/systemd/system/foo.service'' = Inr (init\<lparr>service_name := ''foo''\<rparr>)
   \<and> processed_content (init\<lparr>service_name := ''foo''\<rparr>) unit_no_service = unit_no_service
   \<and> \<not> has_service_header unit_no_service
   \<and> parse_service_file init ''/etc/systemd/system/foo.service'' unit_no_service
       = Inl (ValueError ''Not a valid systemd service file: missing [Service] section'')
   \<and> main (\<lambda>exc. []) (output_to_stdout remdups) ''/etc/systemd/system/foo.service'' unit_no_service
       = \<lparr>stdout = [''Error parsing service file: Not a valid systemd service file: missing [Service] section''],
          exit_status = 1\<rparr>"
proof -
  have pt: "parse_template init ''/etc/systemd/system/foo.service'' = Inr (init\<lparr>service_name := ''foo''\<rparr>)"
    by (simp add: parse_template_def basename_def init_def)
  have pc: "processed_content (init\<lparr>service_name := ''foo''\<rparr>) unit_no_service = unit_no_service"
    by (simp add: processed_content_def preprocess_service_file_def unit_no_service_def
        replace_systemd_specifiers_def init_def strip_def lstrip_def rstrip_def isspace_def
        endswith_def split_first_def lower_def lower_char_def Let_def)
  have nh: "\<not> has_service_header unit_no_service"
    by (simp add: has_service_header_def unit_no_service_def sect_header_def strip_def
        lstrip_def rstrip_def isspace_def)
  have rf: "read_file unit_no_service =
              Inr \<lparr>defaults = [], sections = [(''Unit'', [(''description'', ''Foo''), (''after'', ''network.target'')])]\<rparr>"
    by (simp add: read_file_def unit_no_service_def read_line_def new_reader_def sect_header_def
        opt_match_def is_delim_def cursect_def cursect_update_def append_value_def
        join_multiline_values_def strip_def lstrip_def rstrip_def isspace_def lower_def
        lower_char_def Let_def)
  have none: "\<forall>self cfg. parse_template init ''/etc/systemd/system/foo.service'' = Inr self
             \<and> read_file (processed_content self unit_no_service) = Inr cfg
             \<longrightarrow> \<not> has_section cfg ''Service''"
    using pt pc no_header_no_section [OF nh] by auto
  from missing_service_section [OF none, of "\<lambda>exc. []" "output_to_stdout remdups"] pt pc nh rf
  show ?thesis
    by (auto simp: str_of_def)
qed

subsection \<open>Required dependencies\<close>

lemma set_dep_token:
  "set (dep_token required dep) = set required \<union> (case facility dep of Some f \<Rightarrow> {f} | None \<Rightarrow> {})"
  by (auto simp: dep_token_def facility_def)

lemma set_foldl_dep_token:
  "set (foldl dep_token required deps) =
     set required \<union> {f. \<exists>dep \<in> set deps. facility dep = Some f}"
proof (induction deps arbitrary: required)
  case Nil
  then show ?case by simp
next
  case (Cons dep deps)
  show ?case
    by (cases "facility dep") (auto simp: Cons.IH set_dep_token)
qed

lemma split_ws_empty: "split_ws [] = []"
  by (simp add: split_ws_def)

lemma set_dep_option:
  "set (dep_option self required option) =
     set required \<union> facilities (get_config_str self ''Unit'' option [])"
  by (auto simp: dep_option_def Let_def set_foldl_dep_token facilities_def split_ws_empty)

text \<open>
  Claim C7, as amended. Whenever the executable path of the unit can be read, the list of
  required dependencies is, as a set, the seed \<open>$syslog\<close>, \<open>$local_fs\<close>, with
  \<open>$remote_fs\<close> when the executable path starts with \<open>/usr\<close>, and with the facilities
  that the table gives for the tokens of \<open>After\<close> and \<open>Requires\<close>; a token outside the
  table adds nothing. \<open>Required-Start\<close> and \<open>Required-Stop\<close> are printed from the same
  enumeration of that list. For \<open>After=network.target syslog.target\<close>, no \<open>Requires\<close> and
  an executable outside \<open>/usr\<close> the set is \<open>$syslog\<close>, \<open>$local_fs\<close>, \<open>$network\<close>.
\<close>

theorem required_dependencies:
  assumes "get_executable_path self = Inr exec_path"
  shows "\<exists>required. required_deps self = Inr required
           \<and> set required =
               {''$syslog'', ''$local_fs''}
               \<union> (if startswith exec_path ''/usr'' then {''$remote_fs''} else {})
               \<union> facilities (get_config_str self ''Unit'' ''After'' [])
               \<union> facilities (get_config_str self ''Unit'' ''Requires'' [])
           \<and> take 2 (fst (generate_dependencies ord self)) =
               [''# Required-Start:'' @ TAB @ join '' '' (ord required),
                ''# Required-Stop:'' @ TAB @ join '' '' (ord required)]
           \<and> (valid_set_order ord \<longrightarrow> set (ord required) = set required)
           \<and> (get_config_str self ''Unit'' ''After'' [] = ''network.target syslog.target''
                \<and> get_config_str self ''Unit'' ''Requires'' [] = []
                \<and> \<not> startswith exec_path ''/usr''
                \<longrightarrow> set required = {''$syslog'', ''$local_fs'', ''$network''})"
proof -
  let ?base = "[''$syslog'', ''$local_fs''] @ (if startswith exec_path ''/usr'' then [''$remote_fs''] else [])"
  let ?required = "foldl (dep_option self) ?base [''After'', ''Requires'']"
  have usr: "(exec_path \<noteq> [] \<and> startswith exec_path ''/usr'') = startswith exec_path ''/usr''"
    by (cases exec_path) auto
  have r: "required_deps self = Inr ?required"
    using assms by (simp add: required_deps_def Let_def usr)
  have s: "set ?required =
             {''$syslog'', ''$local_fs''}
             \<union> (if startswith exec_path ''/usr'' then {''$remote_fs''} else {})
             \<union> facilities (get_config_str self ''Unit'' ''After'' [])
             \<union> facilities (get_config_str self ''Unit'' ''Requires'' [])"
    by (auto simp: set_dep_option)
  have g: "take 2 (fst (generate_dependencies ord self)) =
             [''# Required-Start:'' @ TAB @ join '' '' (ord ?required),
              ''# Required-Stop:'' @ TAB @ join '' '' (ord ?required)]"
    by (simp add: generate_dependencies_def r eval_then_def prints_def Let_def)
  have f: "facilities ''network.target syslog.target'' = {''$network'', ''$syslog''}"
    by (auto simp: facilities_def facility_def split_ws_def isspace_def)
  have e: "facilities [] = {}"
    by (simp add: facilities_def split_ws_empty)
  have v: "valid_set_order ord \<longrightarrow> set (ord ?required) = set ?required"
    by (simp add: valid_set_order_def)
  have p: "get_config_str self ''Unit'' ''After'' [] = ''network.target syslog.target''
             \<and> get_config_str self ''Unit'' ''Requires'' [] = []
             \<and> \<not> startswith exec_path ''/usr''
           \<longrightarrow> set ?required = {''$syslog'', ''$local_fs'', ''$network''}"
    unfolding s by (auto simp: f e)
  from r s g v p show ?thesis
    by blast
qed

theorem required_dependencies_witness:
  "get_executable_path unit_after = Inr ''/bin/foo''
   \<and> required_deps unit_after = Inr [''$syslog'', ''$local_fs'', ''$network'']
   \<and> valid_set_order remdups
   \<and> generate_dependencies remdups unit_after =
       prints [''# Required-Start:'' @ TAB @ ''$syslog $local_fs $network'',
               ''# Required-Stop:'' @ TAB @ ''$syslog $local_fs $network'']
   \<and> (\<exists>required. required_deps unit_after = Inr required
          \<and> set required = {''$syslog'', ''$local_fs'', ''$network''})"
proof -
  have cfg: "get_config_str unit_after ''Service'' ''ExecStart'' [] = ''/bin/foo --bar''"
      "get_config_str unit_after ''Unit'' ''After'' [] = ''network.target syslog.target''"
      "get_config_str unit_after ''Unit'' ''Requires'' [] = []"
      "get_config_str unit_after ''Unit'' ''Wants'' [] = []"
    by (simp_all add: get_config_str_def get_config_option_def config_get_def unit_after_def
        init_def lower_def lower_char_def)
  have ex: "get_executable_path unit_after = Inr ''/bin/foo''"
    by (simp add: get_executable_path_def cfg split_ws_def isspace_def)
  have rd: "required_deps unit_after = Inr [''$syslog'', ''$local_fs'', ''$network'']"
    by (simp add: required_deps_def ex dep_option_def cfg dep_token_def split_ws_def isspace_def)
  have v: "valid_set_order remdups"
    by (simp add: valid_set_order_def)
  have g: "generate_dependencies remdups unit_after =
       prints [''# Required-Start:'' @ TAB @ ''$syslog $local_fs $network'',
               ''# Required-Stop:'' @ TAB @ ''$syslog $local_fs $network'']"
    by (simp add: generate_dependencies_def rd eval_then_def should_deps_def cfg Let_def)
  from required_dependencies [OF ex, of remdups] cfg v
  have "\<exists>required. required_deps unit_after = Inr required
          \<and> set required = {''$syslog'', ''$local_fs'', ''$network''}"
    by auto
  with ex rd v g show ?thesis
    by blast
qed

text \<open>
  Claim C7, as stated, fails: with the same \<open>After\<close> and the executable
  \<open>/usr/bin/foo\<close>, the set also holds \<open>$remote_fs\<close>.
\<close>

theorem required_dependencies_counterexample:
  "parse_service_file init ''/etc/systemd/system/foo.service'' unit_after_usr_file = Inr unit_after_usr
   \<and> get_config_str unit_after_usr ''Unit'' ''After'' [] = ''network.target syslog.target''
   \<and> required_deps unit_after_usr = Inr [''$syslog'', ''$local_fs'', ''$remote_fs'', ''$network'']
   \<and> ''$remote_fs'' \<in> set [''$syslog'', ''$local_fs'', ''$remote_fs'', ''$network'']
   \<and> ''$remote_fs'' \<notin> {''$syslog'', ''$local_fs'', ''$network''}"
proof -
  have cfg: "get_config_str unit_after_usr ''Service'' ''ExecStart'' [] = ''/usr/bin/foo --bar''"
      "get_config_str unit_after_usr ''Unit'' ''After'' [] = ''network.target syslog.target''"
      "get_config_str unit_after_usr ''Unit'' ''Requires'' [] = []"
    by (simp_all add: get_config_str_def get_config_option_def config_get_def unit_after_usr_def
        init_def lower_def lower_char_def)
  have ex: "get_executable_path unit_after_usr = Inr ''/usr/bin/foo''"
    by (simp add: get_executable_path_def cfg split_ws_def isspace_def)
  have rd: "required_deps unit_after_usr = Inr [''$syslog'', ''$local_fs'', ''$remote_fs'', ''$network'']"
    by (simp add: required_deps_def ex dep_option_def cfg dep_token_def split_ws_def isspace_def)
  have load: "parse_service_file init ''/etc/systemd/system/foo.service'' unit_after_usr_file
                = Inr unit_after_usr"
    by (simp add: eval_loader eval_reader eval_strings unit_after_usr_file_def unit_after_usr_def)
  from load cfg(2) rd show ?thesis
    by simp
qed

subsection \<open>Determinism\<close>

lemma same_refl: "same_up_to_dependency_order p p"
  by (simp add: same_up_to_dependency_order_def same_line_def list_all2_refl)

lemma same_seqs:
  "list_all2 same_up_to_dependency_order ps qs \<Longrightarrow>
   same_up_to_dependency_order (seqs ps) (seqs qs)"
proof (induction rule: list_all2_induct)
  case Nil
  then show ?case by (simp add: same_up_to_dependency_order_def)
next
  case (Cons p ps q qs)
  obtain ls r where p: "p = (ls, r)" by (cases p)
  obtain ms s where q: "q = (ms, s)" by (cases q)
  obtain ls' r' where ps: "seqs ps = (ls', r')" by (cases "seqs ps")
  obtain ms' s' where qs: "seqs qs = (ms', s')" by (cases "seqs qs")
  from Cons.hyps(1) p q have rs: "s = r" and l: "list_all2 same_line ls ms"
    by (simp_all add: same_up_to_dependency_order_def)
  from Cons.IH ps qs have rs': "r' = s'" and l': "list_all2 same_line ls' ms'"
    by (simp_all add: same_up_to_dependency_order_def)
  show ?case
  proof (cases r)
    case None
    with rs p q ps qs rs' l l' show ?thesis
      by (simp add: same_up_to_dependency_order_def list_all2_appendI)
  next
    case (Some err)
    with rs p q l show ?thesis
      by (simp add: same_up_to_dependency_order_def)
  qed
qed

lemma same_generate_dependencies:
  assumes "valid_set_order ord1" and "valid_set_order ord2"
  shows "same_up_to_dependency_order (generate_dependencies ord1 self) (generate_dependencies ord2 self)"
proof (cases "required_deps self")
  case (Inl err)
  then show ?thesis
    by (simp add: generate_dependencies_def eval_then_def same_refl)
next
  case (Inr required)
  have field: "same_line (f @ TAB @ join '' '' (ord1 xs)) (f @ TAB @ join '' '' (ord2 xs))"
    if "f \<in> set dependency_fields" for f xs
  proof -
    from assms have "set (ord1 xs) = set (ord2 xs)" "distinct (ord1 xs)" "distinct (ord2 xs)"
      by (simp_all add: valid_set_order_def)
    with that show ?thesis
      unfolding same_line_def same_dependency_field_def by blast
  qed
  have f1: "same_line (''# Required-Start:'' @ TAB @ join '' '' (ord1 required))
                      (''# Required-Start:'' @ TAB @ join '' '' (ord2 required))"
    by (rule field) (simp add: dependency_fields_def)
  have f2: "same_line (''# Required-Stop:'' @ TAB @ join '' '' (ord1 required))
                      (''# Required-Stop:'' @ TAB @ join '' '' (ord2 required))"
    by (rule field) (simp add: dependency_fields_def)
  have f3: "same_line (''# Should-Start:'' @ TAB @ join '' '' (ord1 (should_deps self)))
                      (''# Should-Start:'' @ TAB @ join '' '' (ord2 (should_deps self)))"
    by (rule field) (simp add: dependency_fields_def)
  from Inr f1 f2 f3 show ?thesis
    by (simp add: generate_dependencies_def eval_then_def prints_def Let_def
        same_up_to_dependency_order_def)
qed

lemma same_generate_lsb_header:
  assumes "valid_set_order ord1" and "valid_set_order ord2"
  shows "same_up_to_dependency_order (generate_lsb_header ord1 self) (generate_lsb_header ord2 self)"
  unfolding generate_lsb_header_def
  by (rule same_seqs) (simp add: same_refl same_generate_dependencies [OF assms])

text \<open>
  Claim C10. Loading is a function of the file name and the text. The script is a function
  of the loaded unit and of the order in which the sets of facilities are enumerated, and
  that order is read in the three dependency fields of the header only: for any two
  enumerations, the two scripts stop at the same point with the same exception or none,
  and are line by line equal, or the same dependency field with the same facilities in
  another order.
\<close>

theorem conversion_deterministic:
  assumes "valid_set_order ord1" and "valid_set_order ord2"
  shows "same_up_to_dependency_order (generate_init_script ord1 self) (generate_init_script ord2 self)
       \<and> exit_status (output_to_stdout ord1 self) = exit_status (output_to_stdout ord2 self)
       \<and> list_all2 same_line (stdout (output_to_stdout ord1 self)) (stdout (output_to_stdout ord2 self))"
proof -
  have gen: "same_up_to_dependency_order (generate_init_script ord1 self) (generate_init_script ord2 self)"
    unfolding generate_init_script_def
    by (rule same_seqs) (simp add: same_refl same_generate_lsb_header [OF assms])
  then have "exit_status (output_to_stdout ord1 self) = exit_status (output_to_stdout ord2 self)
             \<and> list_all2 same_line (stdout (output_to_stdout ord1 self)) (stdout (output_to_stdout ord2 self))"
    by (cases "generate_init_script ord1 self"; cases "generate_init_script ord2 self")
       (auto simp: output_to_stdout_def same_up_to_dependency_order_def split: option.splits)
  with gen show ?thesis
    by simp
qed

theorem conversion_deterministic_witness:
  "valid_set_order remdups
   \<and> valid_set_order (\<lambda>xs. rev (remdups xs))
   \<and> fst (generate_dependencies remdups unit_after) =
       [''# Required-Start:'' @ TAB @ ''$syslog $local_fs $network'',
        ''# Required-Stop:'' @ TAB @ ''$syslog $local_fs $network'']
   \<and> fst (generate_dependencies (\<lambda>xs. rev (remdups xs)) unit_after) =
       [''# Required-Start:'' @ TAB @ ''$network $local_fs $syslog'',
        ''# Required-Stop:'' @ TAB @ ''$network $local_fs $syslog'']
   \<and> same_up_to_dependency_order (generate_init_script remdups unit_after)
                                   (generate_init_script (\<lambda>xs. rev (remdups xs)) unit_after)"
proof -
  have cfg: "get_config_str unit_after ''Service'' ''ExecStart'' [] = ''/bin/foo --bar''"
      "get_config_str unit_after ''Unit'' ''After'' [] = ''network.target syslog.target''"
      "get_config_str unit_after ''Unit'' ''Requires'' [] = []"
      "get_config_str unit_after ''Unit'' ''Wants'' [] = []"
    by (simp_all add: get_config_str_def get_config_option_def config_get_def unit_after_def
        init_def lower_def lower_char_def)
  have ex: "get_executable_path unit_after = Inr ''/bin/foo''"
    by (simp add: get_executable_path_def cfg split_ws_def isspace_def)
  have rd: "required_deps unit_after = Inr [''$syslog'', ''$local_fs'', ''$network'']"
    by (simp add: required_deps_def ex dep_option_def cfg dep_token_def split_ws_def isspace_def)
  have v1: "valid_set_order remdups"
    by (simp add: valid_set_order_def)
  have v2: "valid_set_order (\<lambda>xs. rev (remdups xs))"
    by (simp add: valid_set_order_def)
  have g1: "fst (generate_dependencies remdups unit_after) =
       [''# Required-Start:'' @ TAB @ ''$syslog $local_fs $network'',
        ''# Required-Stop:'' @ TAB @ ''$syslog $local_fs $network'']"
    by (simp add: generate_dependencies_def rd eval_then_def should_deps_def cfg Let_def prints_def)
  have g2: "fst (generate_dependencies (\<lambda>xs. rev (remdups xs)) unit_after) =
       [''# Required-Start:'' @ TAB @ ''$network $local_fs $syslog'',
        ''# Required-Stop:'' @ TAB @ ''$network $local_fs $syslog'']"
    by (simp add: generate_dependencies_def rd eval_then_def should_deps_def cfg Let_def prints_def)
  from conversion_deterministic [OF v1 v2, of unit_after] v1 v2 g1 g2 show ?thesis
    by simp
qed

subsection \<open>Duplicate keys\<close>

lemma preprocess_lines_kept: "set (preprocess_lines current section_data lines) \<subseteq> set lines"
  by (induction lines arbitrary: current section_data)
     (auto simp: Let_def split: option.splits prod.splits)

text \<open>
  Claim C1 does not hold of the code. Every line that \<open>preprocess_service_file\<close> returns
  is a line of the file as it stands, so no line with a merged value is ever written:
  the merged values are collected in \<open>section_data\<close>, which is not returned. For
  \<open>Environment=A=1\<close> followed by \<open>Environment=B=2\<close> the second line is dropped, the
  parsed value of \<open>Environment\<close> is \<open>A=1\<close>, and the variable block exports \<open>A=1\<close>
  only.
\<close>

theorem duplicate_environment_dropped:
  \<open>set (preprocess_service_file content) \<subseteq> set (readlines (universal_newlines content))
   \<and> preprocess_service_file unit_environment
       = [''[Service]\<newline>'', ''ExecStart=/bin/foo\<newline>'', ''Environment=A=1\<newline>'']
   \<and> parse_service_file init ''/etc/systemd/system/foo.service'' unit_environment
       = Inr unit_environment_loaded
   \<and> get_config_option unit_environment_loaded ''Service'' ''Environment'' None = Some ''A=1''
   \<and> generate_script_variables unit_environment_loaded
       = prints [''. /lib/lsb/init-functions'', ''prog=foo'', ''PIDFILE=/var/run/$prog.pid'',
                 ''DESC="foo"'', ''export A=1'']\<close>
proof -
  have kept: "set (preprocess_service_file content) \<subseteq> set (readlines (universal_newlines content))"
    by (simp add: preprocess_service_file_def preprocess_lines_kept)
  have pre: "preprocess_service_file unit_environment
       = [''[Service]\<newline>'', ''ExecStart=/bin/foo\<newline>'', ''Environment=A=1\<newline>'']"
    by (simp add: preprocess_service_file_def unit_environment_def eval_strings Let_def)
  have rd: "read_file ''[Service]\<newline>ExecStart=/bin/foo\<newline>Environment=A=1\<newline>''
       = Inr \<lparr>defaults = [], sections = [(''Service'', [(''execstart'', ''/bin/foo''),
                                                (''environment'', ''A=1'')])]\<rparr>"
    by (simp add: eval_reader eval_strings Let_def)
  have load: "parse_service_file init ''/etc/systemd/system/foo.service'' unit_environment
       = Inr unit_environment_loaded"
    by (simp add: parse_service_file_def parse_template_def basename_def processed_content_def
        replace_systemd_specifiers_def pre rd has_section_def unit_environment_loaded_def init_def)
  have env: "get_config_option unit_environment_loaded ''Service'' ''Environment'' None = Some ''A=1''"
    by (simp add: eval_config unit_environment_loaded_def init_def eval_strings)
  have vars: \<open>generate_script_variables unit_environment_loaded
       = prints [''. /lib/lsb/init-functions'', ''prog=foo'', ''PIDFILE=/var/run/$prog.pid'',
                 ''DESC="foo"'', ''export A=1'']\<close>
    by (simp add: generate_script_variables_def eval_config unit_environment_loaded_def init_def
        eval_strings export_lines_def Let_def)
  from kept pre load env vars show ?thesis
    by blast
qed

subsection \<open>The timeout check\<close>

lemma add_timeout_check_cases:
  "add_timeout_check self action = add_success_check action
   \<or> (\<exists>exc. add_timeout_check self action = ([], Some exc))"
  by (cases "get_executable_path self")
     (simp_all add: add_timeout_check_def Let_def eval_printed)

text \<open>
  Claim C2 does not hold of the code. \<open>_add_timeout_check\<close> never prints the poll loop:
  it prints the success check, or stops with an exception before it has printed a line.
  With \<open>TimeoutStartSec=5\<close> the variable block sets \<open>STARTTIMEOUT=5\<close>, but the check
  reads \<open>TimeoutSec\<close> only, and the start procedure gets the single success check. With
  \<open>TimeoutSec=5\<close> the start procedure stops behind the command line with the
  \<open>NameError\<close> of \<open>timeout_var\<close>.
\<close>

theorem start_timeout_no_poll_loop:
  \<open>TAB @ ''while [ $TIMEOUT -gt 0 ]; do'' \<notin> set (fst (add_timeout_check self action))
   \<and> parse_service_file init ''/etc/systemd/system/foo.service'' unit_timeout_start
       = Inr unit_timeout_start_loaded
   \<and> ''STARTTIMEOUT=5'' \<in> set (fst (generate_script_variables unit_timeout_start_loaded))
   \<and> generate_start_function unit_timeout_start_loaded
       = prints [''start() {'',
                 TAB @ ''log_daemon_msg "Starting $DESC" "$prog"'',
                 TAB @ ''start-stop-daemon --start --background --make-pidfile --pidfile $PIDFILE --exec /bin/foo'',
                 TAB @ ''if [ $? -ne 0 ]; then'',
                 TAB @ TAB @ ''log_end_msg 1'',
                 TAB @ TAB @ ''exit 1'',
                 TAB @ ''fi'',
                 TAB @ ''if [ $? -eq 0 ]; then'',
                 TAB @ TAB @ ''log_end_msg 0'',
                 TAB @ ''fi'',
                 ''}'', []]
   \<and> parse_service_file init ''/etc/systemd/system/foo.service'' unit_timeout_sec
       = Inr unit_timeout_sec_loaded
   \<and> ''STARTTIMEOUT=5'' \<in> set (fst (generate_script_variables unit_timeout_sec_loaded))
   \<and> generate_start_function unit_timeout_sec_loaded
       = ([''start() {'',
           TAB @ ''log_daemon_msg "Starting $DESC" "$prog"'',
           TAB @ ''start-stop-daemon --start --background --make-pidfile --pidfile $PIDFILE --exec /bin/foo''],
          Some (NameError ''timeout_var''))\<close>
proof -
  have loop: "TAB @ ''while [ $TIMEOUT -gt 0 ]; do'' \<notin> set (fst (add_timeout_check self action))"
    using add_timeout_check_cases [of self action]
    by (auto simp: add_success_check_def prints_def)
  have load1: "parse_service_file init ''/etc/systemd/system/foo.service'' unit_timeout_start
       = Inr unit_timeout_start_loaded"
    by (simp add: eval_loader eval_reader eval_strings unit_timeout_start_def
        unit_timeout_start_loaded_def)
  have load2: "parse_service_file init ''/etc/systemd/system/foo.service'' unit_timeout_sec
       = Inr unit_timeout_sec_loaded"
    by (simp add: eval_loader eval_reader eval_strings unit_timeout_sec_def
        unit_timeout_sec_loaded_def)
  have vars1: "''STARTTIMEOUT=5'' \<in> set (fst (generate_script_variables unit_timeout_start_loaded))"
    by (simp add: generate_script_variables_def eval_config unit_timeout_start_loaded_def init_def
        eval_strings eval_printed Let_def)
  have vars2: "''STARTTIMEOUT=5'' \<in> set (fst (generate_script_variables unit_timeout_sec_loaded))"
    by (simp add: generate_script_variables_def eval_config unit_timeout_sec_loaded_def init_def
        eval_strings eval_printed Let_def)
  have start1: \<open>generate_start_function unit_timeout_start_loaded
       = prints [''start() {'',
                 TAB @ ''log_daemon_msg "Starting $DESC" "$prog"'',
                 TAB @ ''start-stop-daemon --start --background --make-pidfile --pidfile $PIDFILE --exec /bin/foo'',
                 TAB @ ''if [ $? -ne 0 ]; then'',
                 TAB @ TAB @ ''log_end_msg 1'',
                 TAB @ TAB @ ''exit 1'',
                 TAB @ ''fi'',
                 TAB @ ''if [ $? -eq 0 ]; then'',
                 TAB @ TAB @ ''log_end_msg 0'',
                 TAB @ ''fi'',
                 ''}'', []]\<close>
    by (simp add: generate_start_function_def condition_guards_def add_timeout_check_def
        get_executable_path_def get_full_command_def eval_config unit_timeout_start_loaded_def
        init_def eval_strings eval_printed Let_def)
  have start2: \<open>generate_start_function unit_timeout_sec_loaded
       = ([''start() {'',
           TAB @ ''log_daemon_msg "Starting $DESC" "$prog"'',
           TAB @ ''start-stop-daemon --start --background --make-pidfile --pidfile $PIDFILE --exec /bin/foo''],
          Some (NameError ''timeout_var''))\<close>
    by (simp add: generate_start_function_def condition_guards_def add_timeout_check_def
        get_executable_path_def get_full_command_def eval_config unit_timeout_sec_loaded_def
        init_def eval_strings eval_printed Let_def)
  from loop load1 vars1 start1 load2 vars2 start2 show ?thesis
    by blast
qed

lemma stops_seqs: "\<exists>p \<in> set ps. stops p \<Longrightarrow> stops (seqs ps)"
proof (induction ps)
  case Nil
  then show ?case by simp
next
  case (Cons q qs)
  obtain ls r where q: "q = (ls, r)" by (cases q)
  obtain ms s where qs: "seqs qs = (ms, s)" by (cases "seqs qs")
  show ?case
  proof (cases r)
    case (Some exc)
    with q show ?thesis by (simp add: stops_def)
  next
    case None
    with q Cons.prems have "\<exists>p \<in> set qs. stops p"
      by (auto simp: stops_def)
    then have "stops (seqs qs)" by (rule Cons.IH)
    with q qs None show ?thesis by (simp add: stops_def)
  qed
qed

lemma stops_prints: "\<not> stops (prints ls)"
  by (simp add: stops_def prints_def)

lemma stops_eval_then: "\<forall>x. stops (k x) \<Longrightarrow> stops (eval_then v k)"
  by (cases v) (simp_all add: eval_then_def raises_def stops_def)

lemma only_name_error_prints: "only_name_error (prints ls)"
  by (simp add: only_name_error_def prints_def)

lemma only_name_error_seqs: "\<forall>p \<in> set ps. only_name_error p \<Longrightarrow> only_name_error (seqs ps)"
proof (induction ps)
  case Nil
  then show ?case by (simp add: only_name_error_def)
next
  case (Cons p ps)
  obtain ls r where p: "p = (ls, r)" by (cases p)
  obtain ms s where ps: "seqs ps = (ms, s)" by (cases "seqs ps")
  from Cons.prems p have r: "r = None \<or> r = Some (NameError ''timeout_var'')"
    by (simp add: only_name_error_def)
  from Cons have "only_name_error (seqs ps)" by simp
  with ps have s: "s = None \<or> s = Some (NameError ''timeout_var'')"
    by (simp add: only_name_error_def)
  from r s show ?case
    by (auto simp: p ps only_name_error_def)
qed

lemma stops_add_timeout_check:
  assumes "get_config_option self ''Service'' ''TimeoutSec'' None = Some v" and "v \<noteq> []" and "v \<noteq> ''0''"
  shows "stops (add_timeout_check self action)"
  using assms
  by (cases "get_executable_path self")
     (simp_all add: add_timeout_check_def Let_def eval_then_def raises_def name_lookup_def stops_def)

lemma stops_stop_function:
  assumes "get_config_option self ''Service'' ''TimeoutSec'' None = Some v" and "v \<noteq> []" and "v \<noteq> ''0''"
  shows "stops (generate_stop_function self)"
  by (simp add: generate_stop_function_def Let_def stops_seqs stops_eval_then
      stops_add_timeout_check [OF assms] del: seqs.simps)

lemma stops_script:
  assumes "get_config_option self ''Service'' ''TimeoutSec'' None = Some v" and "v \<noteq> []" and "v \<noteq> ''0''"
  shows "stops (generate_init_script ord self)"
  by (simp add: generate_init_script_def stops_seqs stops_stop_function [OF assms] del: seqs.simps)

lemma only_name_error_add_timeout_check:
  "get_executable_path self = Inr path \<Longrightarrow> only_name_error (add_timeout_check self action)"
  by (simp add: add_timeout_check_def Let_def eval_then_def raises_def name_lookup_def
      add_success_check_def only_name_error_prints)
     (simp add: only_name_error_def)

lemmas only_name_error_simps = only_name_error_prints only_name_error_seqs
  only_name_error_add_timeout_check add_success_check_def eval_then_def Let_def

lemma only_name_error_start:
  "get_executable_path self = Inr path \<Longrightarrow> only_name_error (generate_start_function self)"
  by (simp add: generate_start_function_def only_name_error_simps split: prod.splits
      del: seqs.simps)

lemma only_name_error_stop:
  "get_executable_path self = Inr path \<Longrightarrow> only_name_error (generate_stop_function self)"
  by (simp add: generate_stop_function_def only_name_error_simps split: prod.splits
      del: seqs.simps)

lemma only_name_error_reload: "only_name_error (generate_reload_function self)"
  by (simp add: generate_reload_function_def only_name_error_simps split: prod.splits
      del: seqs.simps)

lemma only_name_error_header:
  "get_executable_path self = Inr path \<Longrightarrow> only_name_error (generate_lsb_header ord self)"
  by (simp add: generate_lsb_header_def generate_dependencies_def required_deps_def
      generate_runlevels_def only_name_error_simps del: seqs.simps)

lemma only_name_error_status:
  "get_executable_path self = Inr path \<Longrightarrow> only_name_error (generate_status_function self)"
  by (simp add: generate_status_function_def only_name_error_simps del: seqs.simps)

lemma only_name_error_script:
  "get_executable_path self = Inr path \<Longrightarrow> only_name_error (generate_init_script ord self)"
  by (simp add: generate_init_script_def generate_script_variables_def
      generate_force_reload_function_def generate_case_statement_def
      only_name_error_header only_name_error_start only_name_error_stop only_name_error_status
      only_name_error_reload only_name_error_simps del: seqs.simps)

lemma header_stops_first:
  "get_executable_path self = Inl exc \<Longrightarrow> snd (generate_init_script ord self) = Some exc"
  by (simp add: generate_init_script_def generate_lsb_header_def generate_dependencies_def
      required_deps_def eval_then_def raises_def prints_def)

lemma seqs_completes: "\<forall>p \<in> set ps. snd p = None \<Longrightarrow> seqs ps = (concat (map fst ps), None)"
  by (induction ps) (auto split: prod.splits option.splits)

text \<open>
  Claim C3, as amended. When the value read for \<open>TimeoutSec\<close> is neither empty nor
  \<open>0\<close>, \<open>generate_init_script\<close> stops with an exception: the \<open>NameError\<close> of
  \<open>timeout_var\<close> when the executable path of the unit can be read, and otherwise the
  exception of reading that path, raised in the header. So the script is completed only
  when \<open>TimeoutSec\<close> is absent, empty or \<open>0\<close>.
\<close>

theorem timeout_sec_raises:
  assumes "get_config_option self ''Service'' ''TimeoutSec'' None = Some v" and "v \<noteq> []" and "v \<noteq> ''0''"
  shows "snd (generate_init_script ord self) \<noteq> None
       \<and> (\<forall>path. get_executable_path self = Inr path
              \<longrightarrow> snd (generate_init_script ord self) = Some (NameError ''timeout_var''))
       \<and> (\<forall>exc. get_executable_path self = Inl exc
              \<longrightarrow> snd (generate_init_script ord self) = Some exc)"
proof -
  have st: "snd (generate_init_script ord self) \<noteq> None"
    using stops_script [OF assms, of ord] by (simp add: stops_def)
  have ne: "snd (generate_init_script ord self) = Some (NameError ''timeout_var'')"
    if "get_executable_path self = Inr path" for path
    using only_name_error_script [OF that, of ord] st by (simp add: only_name_error_def)
  from st ne header_stops_first show ?thesis
    by blast
qed

theorem timeout_sec_raises_witness:
  "get_config_option unit_timeout_sec_loaded ''Service'' ''TimeoutSec'' None = Some ''5''
   \<and> get_executable_path unit_timeout_sec_loaded = Inr ''/bin/foo''
   \<and> snd (generate_init_script remdups unit_timeout_sec_loaded) = Some (NameError ''timeout_var'')"
proof -
  have tv: "get_config_option unit_timeout_sec_loaded ''Service'' ''TimeoutSec'' None = Some ''5''"
    by (simp add: eval_config unit_timeout_sec_loaded_def init_def eval_strings)
  have ex: "get_executable_path unit_timeout_sec_loaded = Inr ''/bin/foo''"
    by (simp add: get_executable_path_def eval_config unit_timeout_sec_loaded_def init_def
        eval_strings)
  from timeout_sec_raises [OF tv, of remdups] tv ex show ?thesis
    by simp
qed

text \<open>
  Claim C3, as stated, fails: a unit with the line \<open>TimeoutSec=\<close> sets the value to the
  empty string, which is not \<open>0\<close>, and its script is generated to the last line.
\<close>

theorem timeout_sec_raises_counterexample:
  "parse_service_file init ''/etc/systemd/system/foo.service'' unit_timeout_empty
       = Inr unit_timeout_empty_loaded
   \<and> get_config_option unit_timeout_empty_loaded ''Service'' ''TimeoutSec'' None = Some []
   \<and> snd (generate_init_script remdups unit_timeout_empty_loaded) = None
   \<and> last (fst (generate_init_script remdups unit_timeout_empty_loaded)) = ''esac''"
proof -
  have load: "parse_service_file init ''/etc/systemd/system/foo.service'' unit_timeout_empty
       = Inr unit_timeout_empty_loaded"
    by (simp add: eval_loader eval_reader eval_strings unit_timeout_empty_def
        unit_timeout_empty_loaded_def)
  have tv: "get_config_option unit_timeout_empty_loaded ''Service'' ''TimeoutSec'' None = Some []"
    by (simp add: eval_config unit_timeout_empty_loaded_def init_def eval_strings)
  have cfg: "config unit_timeout_empty_loaded =
               \<lparr>defaults = [], sections = [(''Service'', [(''execstart'', ''/bin/foo''),
                                                (''timeoutsec'', [])])]\<rparr>"
      "service_name unit_timeout_empty_loaded = ''foo''"
    by (simp_all add: unit_timeout_empty_loaded_def init_def)
  have ex: "get_executable_path unit_timeout_empty_loaded = Inr ''/bin/foo''"
    by (simp add: get_executable_path_def eval_config cfg eval_strings)
  have fc: "get_full_command unit_timeout_empty_loaded = ''/bin/foo''"
    by (simp add: get_full_command_def eval_config cfg eval_strings)
  have header: "snd (generate_lsb_header remdups unit_timeout_empty_loaded) = None"
    by (simp add: generate_lsb_header_def generate_dependencies_def required_deps_def ex
        dep_option_def should_deps_def generate_runlevels_def eval_config cfg eval_strings
        eval_printed Let_def)
  have vars: "snd (generate_script_variables unit_timeout_empty_loaded) = None"
    by (simp add: generate_script_variables_def prints_def Let_def)
  have atc: "add_timeout_check unit_timeout_empty_loaded action = add_success_check action" for action
    by (simp add: add_timeout_check_def tv)
  have start: "snd (generate_start_function unit_timeout_empty_loaded) = None"
    by (simp add: generate_start_function_def condition_guards_def atc ex fc eval_config cfg
        eval_strings eval_printed Let_def)
  have stop: "snd (generate_stop_function unit_timeout_empty_loaded) = None"
    by (simp add: generate_stop_function_def atc ex eval_config cfg eval_strings eval_printed
        Let_def)
  have status: "snd (generate_status_function unit_timeout_empty_loaded) = None"
    by (simp add: generate_status_function_def ex eval_config cfg eval_strings eval_printed)
  have reload: "generate_reload_function unit_timeout_empty_loaded = prints []"
    by (simp add: generate_reload_function_def eval_config cfg eval_strings)
  have force: "snd (generate_force_reload_function unit_timeout_empty_loaded) = None"
    by (simp add: generate_force_reload_function_def eval_config cfg eval_strings eval_printed)
  have dispatch: \<open>generate_case_statement unit_timeout_empty_loaded
       = prints [''case "$1" in'',
                 TAB @ ''start)'', TAB @ TAB @ ''start'', TAB @ TAB @ '';;'',
                 TAB @ ''stop)'', TAB @ TAB @ ''stop'', TAB @ TAB @ '';;'',
                 TAB @ ''status)'', TAB @ TAB @ ''status'', TAB @ TAB @ '';;'',
                 TAB @ ''force-reload)'', TAB @ TAB @ ''force_reload'', TAB @ TAB @ '';;'',
                 TAB @ ''restart)'', TAB @ TAB @ ''stop'', TAB @ TAB @ ''sleep 2'',
                 TAB @ TAB @ ''start'', TAB @ TAB @ '';;'',
                 TAB @ ''*)'',
                 TAB @ TAB @ ''echo "Usage: $0 {start|stop|status|force-reload|restart}"'',
                 TAB @ TAB @ ''exit 2'',
                 ''esac'']\<close>
    by (simp add: generate_case_statement_def eval_config cfg eval_strings)
  let ?parts = "[prints [''#!/bin/sh''],
                 generate_lsb_header remdups unit_timeout_empty_loaded,
                 prints [ [] ],
                 generate_script_variables unit_timeout_empty_loaded,
                 prints [ [] ],
                 generate_start_function unit_timeout_empty_loaded,
                 generate_stop_function unit_timeout_empty_loaded,
                 generate_status_function unit_timeout_empty_loaded,
                 generate_reload_function unit_timeout_empty_loaded,
                 generate_force_reload_function unit_timeout_empty_loaded,
                 generate_case_statement unit_timeout_empty_loaded]"
  have "\<forall>p \<in> set ?parts. snd p = None"
    by (simp add: header vars start stop status force reload dispatch prints_def)
  then have "seqs ?parts = (concat (map fst ?parts), None)"
    by (rule seqs_completes)
  then have script: "snd (generate_init_script remdups unit_timeout_empty_loaded) = None
                \<and> last (fst (generate_init_script remdups unit_timeout_empty_loaded)) = ''esac''"
    by (simp add: generate_init_script_def dispatch prints_def)
  from load tv script show ?thesis
    by simp
qed

subsection \<open>Reload\<close>

text \<open>
  Claim C8 does not hold of the code. For a unit with the line \<open>ExecReload=\<close> the value
  is the empty string: no reload procedure is printed and \<open>force_reload\<close> is stop followed
  by start, as for an absent \<open>ExecReload\<close>, but the dispatch has the entry \<open>reload)\<close>
  that calls \<open>reload\<close>, and the usage line lists \<open>reload\<close>.
\<close>

theorem empty_reload_dispatch_without_procedure:
  \<open>parse_service_file init ''/etc/systemd/system/foo.service'' unit_reload_empty
       = Inr unit_reload_empty_loaded
   \<and> get_config_option unit_reload_empty_loaded ''Service'' ''ExecReload'' None = Some []
   \<and> generate_reload_function unit_reload_empty_loaded = prints []
   \<and> generate_force_reload_function unit_reload_empty_loaded
       = prints [''force_reload() {'', TAB @ ''stop'', TAB @ ''start'', ''}'', []]
   \<and> generate_case_statement unit_reload_empty_loaded
       = prints [''case "$1" in'',
                 TAB @ ''start)'', TAB @ TAB @ ''start'', TAB @ TAB @ '';;'',
                 TAB @ ''stop)'', TAB @ TAB @ ''stop'', TAB @ TAB @ '';;'',
                 TAB @ ''status)'', TAB @ TAB @ ''status'', TAB @ TAB @ '';;'',
                 TAB @ ''force-reload)'', TAB @ TAB @ ''force_reload'', TAB @ TAB @ '';;'',
                 TAB @ ''restart)'', TAB @ TAB @ ''stop'', TAB @ TAB @ ''sleep 2'',
                 TAB @ TAB @ ''start'', TAB @ TAB @ '';;'',
                 TAB @ ''reload)'', TAB @ TAB @ ''reload'', TAB @ TAB @ '';;'',
                 TAB @ ''*)'',
                 TAB @ TAB @ ''echo "Usage: $0 {start|stop|status|reload|force-reload|restart}"'',
                 TAB @ TAB @ ''exit 2'',
                 ''esac'']\<close>
proof -
  have load: "parse_service_file init ''/etc/systemd/system/foo.service'' unit_reload_empty
       = Inr unit_reload_empty_loaded"
    by (simp add: eval_loader eval_reader eval_strings unit_reload_empty_def
        unit_reload_empty_loaded_def)
  have opt: "get_config_option unit_reload_empty_loaded ''Service'' ''ExecReload'' None = Some []"
    by (simp add: eval_config unit_reload_empty_loaded_def init_def eval_strings)
  have reload: "generate_reload_function unit_reload_empty_loaded = prints []"
    by (simp add: generate_reload_function_def opt)
  have force: "generate_force_reload_function unit_reload_empty_loaded
       = prints [''force_reload() {'', TAB @ ''stop'', TAB @ ''start'', ''}'', []]"
    by (simp add: generate_force_reload_function_def opt prints_def)
  have dispatch: \<open>generate_case_statement unit_reload_empty_loaded
       = prints [''case "$1" in'',
                 TAB @ ''start)'', TAB @ TAB @ ''start'', TAB @ TAB @ '';;'',
                 TAB @ ''stop)'', TAB @ TAB @ ''stop'', TAB @ TAB @ '';;'',
                 TAB @ ''status)'', TAB @ TAB @ ''status'', TAB @ TAB @ '';;'',
                 TAB @ ''force-reload)'', TAB @ TAB @ ''force_reload'', TAB @ TAB @ '';;'',
                 TAB @ ''restart)'', TAB @ TAB @ ''stop'', TAB @ TAB @ ''sleep 2'',
                 TAB @ TAB @ ''start'', TAB @ TAB @ '';;'',
                 TAB @ ''reload)'', TAB @ TAB @ ''reload'', TAB @ TAB @ '';;'',
                 TAB @ ''*)'',
                 TAB @ TAB @ ''echo "Usage: $0 {start|stop|status|reload|force-reload|restart}"'',
                 TAB @ TAB @ ''exit 2'',
                 ''esac'']\<close>
    by (simp add: generate_case_statement_def opt)
  from load opt reload force dispatch show ?thesis
    by blast
qed

subsection \<open>Start conditions\<close>

lemma seqs_prints: "seqs (prints ls # ps) = (ls @ fst (seqs ps), snd (seqs ps))"
  by (simp add: prints_def split: prod.splits)

lemma start_begins_with_guards:
  \<open>\<exists>rest. fst (generate_start_function self)
           = [''start() {'', TAB @ ''log_daemon_msg "Starting $DESC" "$prog"'']
             @ condition_guards self @ rest\<close>
  by (simp add: generate_start_function_def Let_def seqs_prints del: seqs.simps)

text \<open>
  Claim C9 does not hold of the code. The start procedure begins with the guards of the
  conditions that are set, and every guard exits with code 0; but the guard printed for
  \<open>ConditionPathExists\<close> tests \<open>-s\<close>, that the file exists and is not empty, and is
  line by line the guard printed for \<open>ConditionFileNotEmpty\<close> on the same path.
\<close>

theorem path_exists_guard_tests_size:
  \<open>(\<exists>rest. fst (generate_start_function self)
           = [''start() {'', TAB @ ''log_daemon_msg "Starting $DESC" "$prog"'']
             @ condition_guards self @ rest)
   \<and> parse_service_file init ''/etc/systemd/system/foo.service'' unit_condition_path
       = Inr unit_condition_path_loaded
   \<and> condition_guards unit_condition_path_loaded
       = [TAB @ ''if [ ! -s /etc/foo.conf ]; then'',
          TAB @ TAB @ ''log_end_msg 1'',
          TAB @ TAB @ ''exit 0'',
          TAB @ ''fi'']
   \<and> condition_guards unit_condition_file = condition_guards unit_condition_path_loaded\<close>
proof -
  have load: "parse_service_file init ''/etc/systemd/system/foo.service'' unit_condition_path
       = Inr unit_condition_path_loaded"
    by (simp add: eval_loader eval_reader eval_strings unit_condition_path_def
        unit_condition_path_loaded_def)
  have g1: "condition_guards unit_condition_path_loaded
       = [TAB @ ''if [ ! -s /etc/foo.conf ]; then'',
          TAB @ TAB @ ''log_end_msg 1'',
          TAB @ TAB @ ''exit 0'',
          TAB @ ''fi'']"
    by (simp add: condition_guards_def eval_config unit_condition_path_loaded_def init_def
        eval_strings Let_def)
  have g2: "condition_guards unit_condition_file
       = [TAB @ ''if [ ! -s /etc/foo.conf ]; then'',
          TAB @ TAB @ ''log_end_msg 1'',
          TAB @ TAB @ ''exit 0'',
          TAB @ ''fi'']"
    by (simp add: condition_guards_def eval_config unit_condition_file_def init_def
        eval_strings Let_def)
  from start_begins_with_guards [of self] load g1 g2 show ?thesis
    by simp
qed

end
